theory Spec2Isabelle
  imports Main "HOL-Library.Sublist" "HOL-Library.Word"
begin

section \<open>JavaScript values and the built-ins the server relies on\<close>

text \<open>
  The server is TypeScript; its handlers shape plain JavaScript values and hand them to
  \<^verbatim>\<open>JSON.stringify\<close>, \<^verbatim>\<open>encodeURIComponent\<close>, \<^verbatim>\<open>String\<close> and template literals.
  The values that reach it are the ones a JSON document can carry, plus \<^verbatim>\<open>undefined\<close>
  for an omitted argument or property. Values that only a program can build (functions,
  symbols, big integers, cyclic objects, objects with a \<^verbatim>\<open>toJSON\<close> method or without a
  prototype) do not arrive in a tool call or in a parsed response and are not part of
  the model.

  \<^item> A string is a \<open>string\<close> holding the UTF-8 bytes of well-formed Unicode text;
    \<^verbatim>\<open>JSON.stringify\<close> and string concatenation act on such text byte by byte. The
    arguments of the two node tools are the exception: the handlers pass them to
    \<^verbatim>\<open>encodeURIComponent\<close>, which reads its argument code unit by code unit and throws on
    an unpaired surrogate. These two arguments are lists of UTF-16 code units, so that an
    ill-formed string is an input like any other.
  \<^item> A number is an \<open>int\<close> that stands for a safe integer (of absolute value below
    \<open>2^53\<close>): for these the text that JavaScript prints is the digit string of the
    integer. Fractions, larger magnitudes, \<^verbatim>\<open>NaN\<close> and the infinities are not part of
    the model.
  \<^item> An object is the list of its own enumerable properties in enumeration order.
\<close>

datatype jsval =
    Undefined
  | Null
  | Bool bool
  | Num int
  | Str string
  | Arr "jsval list"
  | Obj "(string \<times> jsval) list"

type_synonym jsobj = "(string \<times> jsval) list"

text \<open>
  What a \<^verbatim>\<open>throw\<close> carries: an \<^verbatim>\<open>Error\<close> (of any class) with its message, or
  another value, taken from the values above. A function that can throw returns a sum,
  \<open>Inl\<close> the thrown value.
\<close>

datatype js_thrown = Error string | Thrown jsval

text \<open>\<^verbatim>\<open>if (v)\<close>, \<^verbatim>\<open>v ? a : b\<close> and \<^verbatim>\<open>v || d\<close> test \<^verbatim>\<open>ToBoolean(v)\<close>.\<close>

fun truthy :: "jsval \<Rightarrow> bool" where
  "truthy Undefined = False"
| "truthy Null = False"
| "truthy (Bool b) = b"
| "truthy (Num n) = (n \<noteq> 0)"
| "truthy (Str s) = (s \<noteq> [])"
| "truthy (Arr xs) = True"
| "truthy (Obj ps) = True"

text \<open>\<^verbatim>\<open>a || b\<close>.\<close>

definition js_or :: "jsval \<Rightarrow> jsval \<Rightarrow> jsval" where
  "js_or a b = (if truthy a then a else b)"

text \<open>An optional parameter of type string or object, as the value the handler reads.\<close>

definition opt_str :: "string option \<Rightarrow> jsval" where
  "opt_str x = (case x of None \<Rightarrow> Undefined | Some s \<Rightarrow> Str s)"

definition opt_obj :: "jsobj option \<Rightarrow> jsval" where
  "opt_obj x = (case x of None \<Rightarrow> Undefined | Some ps \<Rightarrow> Obj ps)"

text \<open>
  \<^verbatim>\<open>obj[key] = value\<close>: an existing property keeps its place and takes the new value, a
  new property goes last.
\<close>

fun set_prop :: "string \<Rightarrow> 'v \<Rightarrow> (string \<times> 'v) list \<Rightarrow> (string \<times> 'v) list" where
  "set_prop k v [] = [(k, v)]"
| "set_prop k v ((k', v') # ps) =
     (if k' = k then (k, v) # ps else (k', v') # set_prop k v ps)"

text \<open>\<^verbatim>\<open>obj[key]\<close>: the value of a property, \<^verbatim>\<open>undefined\<close> when there is none.\<close>

definition get_prop :: "string \<Rightarrow> jsobj \<Rightarrow> jsval" where
  "get_prop k ps = (case map_of ps k of None \<Rightarrow> Undefined | Some v \<Rightarrow> v)"

subsection \<open>Numbers and strings as text\<close>

fun show_nat :: "nat \<Rightarrow> string" where
  "show_nat n =
     (if n < 10 then [''0123456789'' ! n]
      else show_nat (n div 10) @ [''0123456789'' ! (n mod 10)])"

declare show_nat.simps [simp del]

definition show_int :: "int \<Rightarrow> string" where
  "show_int i = (if i < 0 then ''-'' @ show_nat (nat (- i)) else show_nat (nat i))"

fun join :: "string \<Rightarrow> string list \<Rightarrow> string" where
  "join sep [] = []"
| "join sep [x] = x"
| "join sep (x # y # ys) = x @ sep @ join sep (y # ys)"

text \<open>
  \<^verbatim>\<open>String(v)\<close>, which the handlers apply to a thrown value that is not an
  \<^verbatim>\<open>Error\<close>. It can throw itself. An object is converted by its \<^verbatim>\<open>toString\<close>
  method: the inherited one answers \<^verbatim>\<open>[object Object]\<close>, but an own property of that
  name hides it, and since no value of the model is a function the conversion then ends
  in a \<^verbatim>\<open>TypeError\<close> (\<^verbatim>\<open>valueOf\<close> gives no primitive either). An array joins the
  strings of its elements with commas, where \<^verbatim>\<open>null\<close> and \<^verbatim>\<open>undefined\<close> elements
  count as empty, and throws what the first failing element throws.
\<close>

fun ToString :: "jsval \<Rightarrow> js_thrown + string"
  and ToStringElements :: "jsval list \<Rightarrow> js_thrown + string list" where
  "ToString Undefined = Inr ''undefined''"
| "ToString Null = Inr ''null''"
| "ToString (Bool b) = Inr (if b then ''true'' else ''false'')"
| "ToString (Num n) = Inr (show_int n)"
| "ToString (Str s) = Inr s"
| "ToString (Arr xs) =
     (case ToStringElements xs of
        Inl error \<Rightarrow> Inl error
      | Inr strs \<Rightarrow> Inr (join '','' strs))"
| "ToString (Obj ps) =
     (if List.member (map fst ps) ''toString''
      then Inl (Error ''Cannot convert object to primitive value'')
      else Inr ''[object Object]'')"
| "ToStringElements [] = Inr []"
| "ToStringElements (x # xs) =
     (case (if x = Undefined \<or> x = Null then Inr [] else ToString x) of
        Inl error \<Rightarrow> Inl error
      | Inr str \<Rightarrow>
          (case ToStringElements xs of
             Inl error \<Rightarrow> Inl error
           | Inr strs \<Rightarrow> Inr (str # strs)))"

subsection \<open>\<^verbatim>\<open>JSON.stringify\<close>\<close>

definition hexLower :: "nat \<Rightarrow> char" where
  "hexLower n = ''0123456789abcdef'' ! (n mod 16)"

definition hexUpper :: "nat \<Rightarrow> char" where
  "hexUpper n = ''0123456789ABCDEF'' ! (n mod 16)"

text \<open>
  \<^verbatim>\<open>QuoteJSONString\<close>: the quote, the backslash and the control characters are escaped,
  everything else is copied.
\<close>

definition QuoteJSONChar :: "char \<Rightarrow> string" where
  "QuoteJSONChar c =
     (if c = CHR 0x08 then [CHR 0x5C, CHR ''b'']
      else if c = CHR 0x09 then [CHR 0x5C, CHR ''t'']
      else if c = CHR 0x0A then [CHR 0x5C, CHR ''n'']
      else if c = CHR 0x0C then [CHR 0x5C, CHR ''f'']
      else if c = CHR 0x0D then [CHR 0x5C, CHR ''r'']
      else if c = CHR 0x22 then [CHR 0x5C, CHR 0x22]
      else if c = CHR 0x5C then [CHR 0x5C, CHR 0x5C]
      else if (of_char c :: nat) < 32 then
        [CHR 0x5C, CHR ''u'', CHR ''0'', CHR ''0'',
         hexLower (of_char c div 16), hexLower (of_char c mod 16)]
      else [c])"

definition QuoteJSONString :: "string \<Rightarrow> string" where
  "QuoteJSONString s = [CHR 0x22] @ concat (map QuoteJSONChar s) @ [CHR 0x22]"

text \<open>
  The brackets around the serialized members of an object or the elements of an array:
  \<open>gap\<close> is the indentation unit, \<open>stepback\<close> the indentation of the enclosing level.
\<close>

definition wrap_json :: "string \<Rightarrow> string \<Rightarrow> string \<Rightarrow> string \<Rightarrow> string list \<Rightarrow> string" where
  "wrap_json gap stepback opening closing partial =
     (if partial = [] then opening @ closing
      else if gap = [] then opening @ join '','' partial @ closing
      else opening @ [CHR 0x0A] @ (stepback @ gap)
           @ join ('','' @ [CHR 0x0A] @ (stepback @ gap)) partial
           @ [CHR 0x0A] @ stepback @ closing)"

text \<open>
  \<^verbatim>\<open>SerializeJSONProperty\<close>, \<^verbatim>\<open>SerializeJSONArray\<close> and
  \<^verbatim>\<open>SerializeJSONObject\<close>. \<open>None\<close> is the result \<^verbatim>\<open>undefined\<close>: an undefined
  value has no JSON text, an object leaves such a property out and an array writes
  \<^verbatim>\<open>null\<close> for it.
\<close>

fun SerializeJSONProperty :: "string \<Rightarrow> string \<Rightarrow> jsval \<Rightarrow> string option"
  and SerializeJSONElements :: "string \<Rightarrow> string \<Rightarrow> jsval list \<Rightarrow> string list"
  and SerializeJSONMembers :: "string \<Rightarrow> string \<Rightarrow> jsobj \<Rightarrow> string list" where
  "SerializeJSONProperty gap indent Undefined = None"
| "SerializeJSONProperty gap indent Null = Some ''null''"
| "SerializeJSONProperty gap indent (Bool b) = Some (if b then ''true'' else ''false'')"
| "SerializeJSONProperty gap indent (Num n) = Some (show_int n)"
| "SerializeJSONProperty gap indent (Str s) = Some (QuoteJSONString s)"
| "SerializeJSONProperty gap indent (Arr xs) =
     Some (wrap_json gap indent ''['' '']'' (SerializeJSONElements gap (indent @ gap) xs))"
| "SerializeJSONProperty gap indent (Obj ps) =
     Some (wrap_json gap indent ''{'' ''}'' (SerializeJSONMembers gap (indent @ gap) ps))"
| "SerializeJSONElements gap indent [] = []"
| "SerializeJSONElements gap indent (x # xs) =
     (case SerializeJSONProperty gap indent x of None \<Rightarrow> ''null'' | Some str \<Rightarrow> str)
     # SerializeJSONElements gap indent xs"
| "SerializeJSONMembers gap indent [] = []"
| "SerializeJSONMembers gap indent ((k, v) # ps) =
     (case SerializeJSONProperty gap indent v of
        None \<Rightarrow> SerializeJSONMembers gap indent ps
      | Some str \<Rightarrow>
          (QuoteJSONString k @ '':'' @ (if gap = [] then [] else '' '') @ str)
          # SerializeJSONMembers gap indent ps)"

text \<open>
  \<^verbatim>\<open>JSON.stringify(value, null, space)\<close>; \<^verbatim>\<open>JSON.stringify(value)\<close> is the case
  \<open>space = 0\<close>. The indentation unit is \<open>space\<close> blanks, at most ten.
\<close>

definition JSON_stringify :: "jsval \<Rightarrow> nat \<Rightarrow> string option" where
  "JSON_stringify v space = SerializeJSONProperty (replicate (min 10 space) CHR '' '') [] v"

subsection \<open>\<^verbatim>\<open>encodeURIComponent\<close>\<close>

text \<open>
  The built-in reads its argument as UTF-16 code units. It takes the code points in
  turn, a leading surrogate together with the trailing surrogate that follows it, and
  throws a \<^verbatim>\<open>URIError\<close> (message \<^verbatim>\<open>URI malformed\<close> on Node.js) at a surrogate that
  has no partner. Each code point contributes its UTF-8 octets.
\<close>

type_synonym code_unit = "16 word"

definition isLeadingSurrogate :: "code_unit \<Rightarrow> bool" where
  "isLeadingSurrogate c = (0xD800 \<le> c \<and> c \<le> 0xDBFF)"

definition isTrailingSurrogate :: "code_unit \<Rightarrow> bool" where
  "isTrailingSurrogate c = (0xDC00 \<le> c \<and> c \<le> 0xDFFF)"

definition UTF16SurrogatePairToCodePoint :: "code_unit \<Rightarrow> code_unit \<Rightarrow> int" where
  "UTF16SurrogatePairToCodePoint lead trail =
     (uint lead - 0xD800) * 0x400 + (uint trail - 0xDC00) + 0x10000"

definition utf8_octets :: "int \<Rightarrow> string" where
  "utf8_octets cp =
     (if cp < 0x80 then [char_of cp]
      else if cp < 0x800 then [char_of (0xC0 + cp div 0x40), char_of (0x80 + cp mod 0x40)]
      else if cp < 0x10000 then
        [char_of (0xE0 + cp div 0x1000), char_of (0x80 + cp div 0x40 mod 0x40),
         char_of (0x80 + cp mod 0x40)]
      else
        [char_of (0xF0 + cp div 0x40000), char_of (0x80 + cp div 0x1000 mod 0x40),
         char_of (0x80 + cp div 0x40 mod 0x40), char_of (0x80 + cp mod 0x40)])"

fun utf8_encode :: "code_unit list \<Rightarrow> js_thrown + string" where
  "utf8_encode [] = Inr []"
| "utf8_encode (c # rest) =
     (if isLeadingSurrogate c then
        (case rest of
           [] \<Rightarrow> Inl (Error ''URI malformed'')
         | d # rest' \<Rightarrow>
             if isTrailingSurrogate d then
               (case utf8_encode rest' of
                  Inl error \<Rightarrow> Inl error
                | Inr octets \<Rightarrow> Inr (utf8_octets (UTF16SurrogatePairToCodePoint c d) @ octets))
             else Inl (Error ''URI malformed''))
      else if isTrailingSurrogate c then Inl (Error ''URI malformed'')
      else
        (case utf8_encode rest of
           Inl error \<Rightarrow> Inl error
         | Inr octets \<Rightarrow> Inr (utf8_octets (uint c) @ octets)))"

text \<open>
  The octets left alone are the letters, the digits and \<^verbatim>\<open>- _ . ! ~ * ' ( )\<close>; every
  other octet becomes \<^verbatim>\<open>%XX\<close> with upper-case hexadecimal digits.
\<close>

definition isUnreserved :: "char \<Rightarrow> bool" where
  "isUnreserved c =
     (let n = (of_char c :: nat) in
        (65 \<le> n \<and> n \<le> 90) \<or> (97 \<le> n \<and> n \<le> 122) \<or> (48 \<le> n \<and> n \<le> 57)
        \<or> List.member ''-_.!~*()'' c \<or> c = CHR 0x27)"

definition percentEncodeOctet :: "char \<Rightarrow> string" where
  "percentEncodeOctet c =
     (if isUnreserved c then [c]
      else [CHR ''%'', hexUpper (of_char c div 16), hexUpper (of_char c mod 16)])"

definition percentEncode :: "string \<Rightarrow> string" where
  "percentEncode octets = concat (map percentEncodeOctet octets)"

definition encodeURIComponent :: "code_unit list \<Rightarrow> js_thrown + string" where
  "encodeURIComponent uriComponent =
     (case utf8_encode uriComponent of
        Inl error \<Rightarrow> Inl error
      | Inr octets \<Rightarrow> Inr (percentEncode octets))"

section \<open>Effects\<close>

text \<open>
  An awaited call either resolves to a value or throws, and it may change the world
  outside the process. The world is an explicit state \<open>'s\<close> passed through every call.
\<close>

type_synonym ('a, 's) io = "'s \<Rightarrow> (js_thrown + 'a) \<times> 's"

text \<open>
  \<^verbatim>\<open>error instanceof Error ? error.message : String(error)\<close>, the first statement of
  every \<^verbatim>\<open>catch\<close> block; it throws when \<^verbatim>\<open>String\<close> does.
\<close>

definition error_message :: "js_thrown \<Rightarrow> js_thrown + string" where
  "error_message error = (case error of Error message \<Rightarrow> Inr message | Thrown v \<Rightarrow> ToString v)"

section \<open>The transport client (flowise-api.ts)\<close>

record FlowiseApiConfig =
  baseUrl :: string
  apiKey :: string

datatype http_method = GET | POST | PUT | DELETE

text \<open>The second argument of \<^verbatim>\<open>fetch\<close>; \<open>init_body = None\<close> is \<^verbatim>\<open>body: undefined\<close>.\<close>

record RequestInit =
  init_method :: http_method
  init_headers :: "(string \<times> string) list"
  init_body :: "string option"

text \<open>
  What the client reads of the \<^verbatim>\<open>Response\<close>: \<^verbatim>\<open>ok\<close>, \<^verbatim>\<open>status\<close>, and the
  outcomes of awaiting \<^verbatim>\<open>text()\<close> and \<^verbatim>\<open>json()\<close>.
\<close>

record Response =
  resp_ok :: bool
  resp_status :: nat
  resp_text :: "js_thrown + string"
  resp_json :: "js_thrown + jsval"

type_synonym 's fetch = "string \<Rightarrow> RequestInit \<Rightarrow> (Response, 's) io"

text \<open>
  \<^verbatim>\<open>request(method, endpoint, body?)\<close>: a \<open>body\<close> of \<open>None\<close> is the omitted argument,
  which the function reads as \<^verbatim>\<open>undefined\<close>.
\<close>

type_synonym 's FlowiseApiClient = "http_method \<Rightarrow> string \<Rightarrow> jsval option \<Rightarrow> (jsval, 's) io"

definition createFlowiseApiClient :: "FlowiseApiConfig \<Rightarrow> 's fetch \<Rightarrow> 's FlowiseApiClient" where
  "createFlowiseApiClient config fetch method endpoint body s =
     (let url = baseUrl config @ ''/api/v1'' @ endpoint;
          headers = [(''Content-Type'', ''application/json'')];
          headers = (if apiKey config \<noteq> []
                     then set_prop ''Authorization'' (''Bearer '' @ apiKey config) headers
                     else headers);
          body = (case body of None \<Rightarrow> Undefined | Some v \<Rightarrow> v)
      in case fetch url
                \<lparr>init_method = method, init_headers = headers,
                 init_body = (if truthy body then JSON_stringify body 0 else None)\<rparr> s of
           (Inl error, s') \<Rightarrow> (Inl error, s')
         | (Inr response, s') \<Rightarrow>
             if \<not> resp_ok response then
               (case resp_text response of
                  Inl error \<Rightarrow> (Inl error, s')
                | Inr errorText \<Rightarrow>
                    (Inl (Error (''Flowise API error ('' @ show_nat (resp_status response)
                                 @ ''): '' @ errorText)), s'))
             else (resp_json response, s'))"

section \<open>The tool handlers (handlers.ts)\<close>

record content_item =
  item_type :: string
  item_text :: "string option"

text \<open>
  \<open>isError = None\<close> is a response without the field. \<open>item_text\<close> is what
  \<^verbatim>\<open>JSON.stringify\<close> returned, which is \<^verbatim>\<open>undefined\<close> for undefined data.
\<close>

record ToolResponse =
  content :: "content_item list"
  isError :: "bool option"

definition successResponse :: "jsval \<Rightarrow> ToolResponse" where
  "successResponse data =
     \<lparr>content = [\<lparr>item_type = ''text'', item_text = JSON_stringify data 2\<rparr>], isError = None\<rparr>"

definition errorResponse :: "string \<Rightarrow> ToolResponse" where
  "errorResponse message =
     \<lparr>content = [\<lparr>item_type = ''text'', item_text = Some message\<rparr>], isError = Some True\<rparr>"

text \<open>The one method of the SDK client, \<^verbatim>\<open>createPrediction(params)\<close>.\<close>

type_synonym 's FlowiseSdkClient = "jsobj \<Rightarrow> (jsval, 's) io"

text \<open>
  The four prediction handlers pass \<^verbatim>\<open>{...params, streaming: false}\<close>: the properties
  of \<open>params\<close> in their order, with \<open>streaming\<close> set afterwards. Like every handler
  they are one \<^verbatim>\<open>try\<close> around one awaited call, with a \<^verbatim>\<open>catch\<close> that turns the
  thrown value into an error response; what the \<^verbatim>\<open>catch\<close> block itself throws
  leaves the handler.
\<close>

definition handleCreatePrediction :: "'s FlowiseSdkClient \<Rightarrow> jsobj \<Rightarrow> 's \<Rightarrow> (js_thrown + ToolResponse) \<times> 's" where
  "handleCreatePrediction client params s =
     (case client (set_prop ''streaming'' (Bool False) params) s of
        (Inr response, s') \<Rightarrow>
          (Inr (successResponse response), s')
      | (Inl error, s') \<Rightarrow>
          (case error_message error of
             Inl thrown \<Rightarrow> (Inl thrown, s')
           | Inr message \<Rightarrow> (Inr (errorResponse (''Error running chatflow: '' @ message)), s')))"

definition handleCreatePredictionWithHistory :: "'s FlowiseSdkClient \<Rightarrow> jsobj \<Rightarrow> 's \<Rightarrow> (js_thrown + ToolResponse) \<times> 's" where
  "handleCreatePredictionWithHistory client params s =
     (case client (set_prop ''streaming'' (Bool False) params) s of
        (Inr response, s') \<Rightarrow>
          (Inr (successResponse response), s')
      | (Inl error, s') \<Rightarrow>
          (case error_message error of
             Inl thrown \<Rightarrow> (Inl thrown, s')
           | Inr message \<Rightarrow> (Inr (errorResponse (''Error running chatflow: '' @ message)), s')))"

definition handleCreatePredictionWithFiles :: "'s FlowiseSdkClient \<Rightarrow> jsobj \<Rightarrow> 's \<Rightarrow> (js_thrown + ToolResponse) \<times> 's" where
  "handleCreatePredictionWithFiles client params s =
     (case client (set_prop ''streaming'' (Bool False) params) s of
        (Inr response, s') \<Rightarrow>
          (Inr (successResponse response), s')
      | (Inl error, s') \<Rightarrow>
          (case error_message error of
             Inl thrown \<Rightarrow> (Inl thrown, s')
           | Inr message \<Rightarrow> (Inr (errorResponse (''Error running chatflow: '' @ message)), s')))"

definition handleCreatePredictionWithLead :: "'s FlowiseSdkClient \<Rightarrow> jsobj \<Rightarrow> 's \<Rightarrow> (js_thrown + ToolResponse) \<times> 's" where
  "handleCreatePredictionWithLead client params s =
     (case client (set_prop ''streaming'' (Bool False) params) s of
        (Inr response, s') \<Rightarrow>
          (Inr (successResponse response), s')
      | (Inl error, s') \<Rightarrow>
          (case error_message error of
             Inl thrown \<Rightarrow> (Inl thrown, s')
           | Inr message \<Rightarrow> (Inr (errorResponse (''Error running chatflow: '' @ message)), s')))"

definition handleListChatflows :: "'s FlowiseApiClient \<Rightarrow> 's \<Rightarrow> (js_thrown + ToolResponse) \<times> 's" where
  "handleListChatflows api s =
     (case api GET ''/chatflows'' None s of
        (Inr chatflows, s') \<Rightarrow>
          (Inr (successResponse chatflows), s')
      | (Inl error, s') \<Rightarrow>
          (case error_message error of
             Inl thrown \<Rightarrow> (Inl thrown, s')
           | Inr message \<Rightarrow> (Inr (errorResponse (''Error listing chatflows: '' @ message)), s')))"

definition handleGetChatflow :: "'s FlowiseApiClient \<Rightarrow> string \<Rightarrow> 's \<Rightarrow> (js_thrown + ToolResponse) \<times> 's" where
  "handleGetChatflow api chatflowId s =
     (case api GET (''/chatflows/'' @ chatflowId) None s of
        (Inr chatflow, s') \<Rightarrow>
          (Inr (successResponse chatflow), s')
      | (Inl error, s') \<Rightarrow>
          (case error_message error of
             Inl thrown \<Rightarrow> (Inl thrown, s')
           | Inr message \<Rightarrow> (Inr (errorResponse (''Error getting chatflow: '' @ message)), s')))"

text \<open>
  The parameters of \<^verbatim>\<open>create_chatflow\<close> and \<^verbatim>\<open>update_chatflow\<close>, typed as the
  handlers declare them; an optional field is an \<open>option\<close>. \<open>flowData\<close> is an object
  (the schema asks for its \<open>nodes\<close> and \<open>edges\<close> arrays; the handlers only serialize it).
\<close>

datatype chatflow_type = CHATFLOW | AGENTFLOW | MULTIAGENT | ASSISTANT

fun chatflow_type_string :: "chatflow_type \<Rightarrow> string" where
  "chatflow_type_string CHATFLOW = ''CHATFLOW''"
| "chatflow_type_string AGENTFLOW = ''AGENTFLOW''"
| "chatflow_type_string MULTIAGENT = ''MULTIAGENT''"
| "chatflow_type_string ASSISTANT = ''ASSISTANT''"

record create_params =
  create_name :: string
  create_flowData :: jsobj
  create_type :: "chatflow_type option"
  create_chatbotConfig :: "jsobj option"

record update_params =
  update_chatflowId :: string
  update_name :: "string option"
  update_flowData :: "jsobj option"
  update_chatbotConfig :: "jsobj option"
definition handleCreateChatflow :: "'s FlowiseApiClient \<Rightarrow> create_params \<Rightarrow> 's \<Rightarrow> (js_thrown + ToolResponse) \<times> 's" where
  "handleCreateChatflow api params s =
     (case api POST ''/chatflows''
             (Some (Obj
                [(''name'', Str (create_name params)),
                 (''flowData'', opt_str (JSON_stringify (Obj (create_flowData params)) 0)),
                 (''type'',
                    js_or (opt_str (map_option chatflow_type_string (create_type params)))
                          (Str ''CHATFLOW'')),
                 (''chatbotConfig'',
                    (if truthy (opt_obj (create_chatbotConfig params))
                     then opt_str (JSON_stringify (opt_obj (create_chatbotConfig params)) 0)
                     else Undefined))])) s of
        (Inr chatflow, s') \<Rightarrow>
          (Inr (successResponse chatflow), s')
      | (Inl error, s') \<Rightarrow>
          (case error_message error of
             Inl thrown \<Rightarrow> (Inl thrown, s')
           | Inr message \<Rightarrow> (Inr (errorResponse (''Error creating chatflow: '' @ message)), s')))"

definition handleUpdateChatflow :: "'s FlowiseApiClient \<Rightarrow> update_params \<Rightarrow> 's \<Rightarrow> (js_thrown + ToolResponse) \<times> 's" where
  "handleUpdateChatflow api params s =
     (let updateData = [];
          updateData =
            (if truthy (opt_str (update_name params))
             then set_prop ''name'' (opt_str (update_name params)) updateData
             else updateData);
          updateData =
            (if truthy (opt_obj (update_flowData params))
             then set_prop ''flowData''
                    (opt_str (JSON_stringify (opt_obj (update_flowData params)) 0)) updateData
             else updateData);
          updateData =
            (if truthy (opt_obj (update_chatbotConfig params))
             then set_prop ''chatbotConfig''
                    (opt_str (JSON_stringify (opt_obj (update_chatbotConfig params)) 0)) updateData
             else updateData)
      in
        case api PUT (''/chatflows/'' @ update_chatflowId params) (Some (Obj updateData)) s of
           (Inr chatflow, s') \<Rightarrow>
             (Inr (successResponse chatflow), s')
         | (Inl error, s') \<Rightarrow>
             (case error_message error of
                Inl thrown \<Rightarrow> (Inl thrown, s')
              | Inr message \<Rightarrow> (Inr (errorResponse (''Error updating chatflow: '' @ message)), s')))"

definition handleDeleteChatflow :: "'s FlowiseApiClient \<Rightarrow> string \<Rightarrow> 's \<Rightarrow> (js_thrown + ToolResponse) \<times> 's" where
  "handleDeleteChatflow api chatflowId s =
     (case api DELETE (''/chatflows/'' @ chatflowId) None s of
        (Inr result, s') \<Rightarrow>
          (Inr (successResponse
             (Obj [(''success'', Bool True), (''deleted'', Str chatflowId),
                   (''result'', result)])), s')
      | (Inl error, s') \<Rightarrow>
          (case error_message error of
             Inl thrown \<Rightarrow> (Inl thrown, s')
           | Inr message \<Rightarrow> (Inr (errorResponse (''Error deleting chatflow: '' @ message)), s')))"

definition handleListNodes :: "'s FlowiseApiClient \<Rightarrow> 's \<Rightarrow> (js_thrown + ToolResponse) \<times> 's" where
  "handleListNodes api s =
     (case api GET ''/nodes'' None s of
        (Inr nodes, s') \<Rightarrow>
          (Inr (successResponse nodes), s')
      | (Inl error, s') \<Rightarrow>
          (case error_message error of
             Inl thrown \<Rightarrow> (Inl thrown, s')
           | Inr message \<Rightarrow> (Inr (errorResponse (''Error listing nodes: '' @ message)), s')))"

text \<open>
  In the two node handlers the path is built inside the \<^verbatim>\<open>try\<close>, before the call:
  when \<^verbatim>\<open>encodeURIComponent\<close> throws, the \<^verbatim>\<open>catch\<close> block runs and no request is
  made.
\<close>

definition handleGetNodesByCategory :: "'s FlowiseApiClient \<Rightarrow> code_unit list \<Rightarrow> 's \<Rightarrow> (js_thrown + ToolResponse) \<times> 's" where
  "handleGetNodesByCategory api category s =
     (case encodeURIComponent category of
        Inl error \<Rightarrow>
          (case error_message error of
             Inl thrown \<Rightarrow> (Inl thrown, s)
           | Inr message \<Rightarrow> (Inr (errorResponse (''Error getting nodes by category: '' @ message)), s))
      | Inr encoded \<Rightarrow>
          (case api GET (''/nodes/category/'' @ encoded) None s of
             (Inr nodes, s') \<Rightarrow>
               (Inr (successResponse nodes), s')
           | (Inl error, s') \<Rightarrow>
               (case error_message error of
                  Inl thrown \<Rightarrow> (Inl thrown, s')
                | Inr message \<Rightarrow> (Inr (errorResponse (''Error getting nodes by category: '' @ message)), s'))))"

definition handleGetNode :: "'s FlowiseApiClient \<Rightarrow> code_unit list \<Rightarrow> 's \<Rightarrow> (js_thrown + ToolResponse) \<times> 's" where
  "handleGetNode api nodeName s =
     (case encodeURIComponent nodeName of
        Inl error \<Rightarrow>
          (case error_message error of
             Inl thrown \<Rightarrow> (Inl thrown, s)
           | Inr message \<Rightarrow> (Inr (errorResponse (''Error getting node: '' @ message)), s))
      | Inr encoded \<Rightarrow>
          (case api GET (''/nodes/'' @ encoded) None s of
             (Inr node, s') \<Rightarrow>
               (Inr (successResponse node), s')
           | (Inl error, s') \<Rightarrow>
               (case error_message error of
                  Inl thrown \<Rightarrow> (Inl thrown, s')
                | Inr message \<Rightarrow> (Inr (errorResponse (''Error getting node: '' @ message)), s'))))"

section \<open>The tool table (index.ts)\<close>

text \<open>One constructor per registered tool, with the parameters its callback hands on.\<close>

datatype tool_call =
    create_prediction jsobj
  | create_prediction_with_history jsobj
  | create_prediction_with_files jsobj
  | create_prediction_with_lead jsobj
  | list_chatflows
  | get_chatflow string
  | create_chatflow create_params
  | update_chatflow update_params
  | delete_chatflow string
  | list_nodes
  | get_nodes_by_category "code_unit list"
  | get_node "code_unit list"

fun call_tool ::
  "'s FlowiseSdkClient \<Rightarrow> 's FlowiseApiClient \<Rightarrow> tool_call \<Rightarrow> 's \<Rightarrow> (js_thrown + ToolResponse) \<times> 's" where
  "call_tool flowiseClient flowiseApi (create_prediction params) =
     handleCreatePrediction flowiseClient params"
| "call_tool flowiseClient flowiseApi (create_prediction_with_history params) =
     handleCreatePredictionWithHistory flowiseClient params"
| "call_tool flowiseClient flowiseApi (create_prediction_with_files params) =
     handleCreatePredictionWithFiles flowiseClient params"
| "call_tool flowiseClient flowiseApi (create_prediction_with_lead params) =
     handleCreatePredictionWithLead flowiseClient params"
| "call_tool flowiseClient flowiseApi list_chatflows = handleListChatflows flowiseApi"
| "call_tool flowiseClient flowiseApi (get_chatflow chatflowId) =
     handleGetChatflow flowiseApi chatflowId"
| "call_tool flowiseClient flowiseApi (create_chatflow params) =
     handleCreateChatflow flowiseApi params"
| "call_tool flowiseClient flowiseApi (update_chatflow params) =
     handleUpdateChatflow flowiseApi params"
| "call_tool flowiseClient flowiseApi (delete_chatflow chatflowId) =
     handleDeleteChatflow flowiseApi chatflowId"
| "call_tool flowiseClient flowiseApi list_nodes = handleListNodes flowiseApi"
| "call_tool flowiseClient flowiseApi (get_nodes_by_category category) =
     handleGetNodesByCategory flowiseApi category"
| "call_tool flowiseClient flowiseApi (get_node nodeName) =
     handleGetNode flowiseApi nodeName"

section \<open>The tools written inline (the single-file index.ts)\<close>

text \<open>
  The single-file variant of the server holds the same logic without the two modules:
  \<^verbatim>\<open>flowiseApi\<close> is the transport function, over the two values read from the
  environment, and each tool's callback builds its response records itself. The
  prediction callbacks destructure their arguments and pass an object literal.
\<close>

definition flowiseApi :: "string \<Rightarrow> string \<Rightarrow> 's fetch \<Rightarrow> 's FlowiseApiClient" where
  "flowiseApi FLOWISE_BASE_URL FLOWISE_API_KEY fetch method endpoint body s =
     (let url = FLOWISE_BASE_URL @ ''/api/v1'' @ endpoint;
          headers = [(''Content-Type'', ''application/json'')];
          headers = (if FLOWISE_API_KEY \<noteq> []
                     then set_prop ''Authorization'' (''Bearer '' @ FLOWISE_API_KEY) headers
                     else headers);
          body = (case body of None \<Rightarrow> Undefined | Some v \<Rightarrow> v)
      in case fetch url
                \<lparr>init_method = method, init_headers = headers,
                 init_body = (if truthy body then JSON_stringify body 0 else None)\<rparr> s of
           (Inl error, s') \<Rightarrow> (Inl error, s')
         | (Inr response, s') \<Rightarrow>
             if \<not> resp_ok response then
               (case resp_text response of
                  Inl error \<Rightarrow> (Inl error, s')
                | Inr errorText \<Rightarrow>
                    (Inl (Error (''Flowise API error ('' @ show_nat (resp_status response)
                                 @ ''): '' @ errorText)), s'))
             else (resp_json response, s'))"

text \<open>The two response records every inline callback writes out.\<close>

definition inline_success :: "jsval \<Rightarrow> ToolResponse" where
  "inline_success data =
     \<lparr>content = [\<lparr>item_type = ''text'', item_text = JSON_stringify data 2\<rparr>], isError = None\<rparr>"

definition inline_error :: "string \<Rightarrow> string \<Rightarrow> ToolResponse" where
  "inline_error label errorMessage =
     \<lparr>content = [\<lparr>item_type = ''text'', item_text = Some (label @ errorMessage)\<rparr>],
      isError = Some True\<rparr>"

fun inline_call_tool ::
  "'s FlowiseSdkClient \<Rightarrow> 's FlowiseApiClient \<Rightarrow> tool_call \<Rightarrow> 's \<Rightarrow> (js_thrown + ToolResponse) \<times> 's" where
  "inline_call_tool flowiseClient api (create_prediction args) s =
     (case flowiseClient
             [(''chatflowId'', get_prop ''chatflowId'' args),
              (''question'', get_prop ''question'' args),
              (''chatId'', get_prop ''chatId'' args),
              (''overrideConfig'', get_prop ''overrideConfig'' args),
              (''streaming'', Bool False)] s of
        (Inr response, s') \<Rightarrow>
          (Inr (inline_success response), s')
      | (Inl error, s') \<Rightarrow>
          (case error_message error of
             Inl thrown \<Rightarrow> (Inl thrown, s')
           | Inr message \<Rightarrow> (Inr (inline_error ''Error running chatflow: '' message), s')))"
| "inline_call_tool flowiseClient api (create_prediction_with_history args) s =
     (case flowiseClient
             [(''chatflowId'', get_prop ''chatflowId'' args),
              (''question'', get_prop ''question'' args),
              (''history'', get_prop ''history'' args),
              (''chatId'', get_prop ''chatId'' args),
              (''overrideConfig'', get_prop ''overrideConfig'' args),
              (''streaming'', Bool False)] s of
        (Inr response, s') \<Rightarrow>
          (Inr (inline_success response), s')
      | (Inl error, s') \<Rightarrow>
          (case error_message error of
             Inl thrown \<Rightarrow> (Inl thrown, s')
           | Inr message \<Rightarrow> (Inr (inline_error ''Error running chatflow: '' message), s')))"
| "inline_call_tool flowiseClient api (create_prediction_with_files args) s =
     (case flowiseClient
             [(''chatflowId'', get_prop ''chatflowId'' args),
              (''question'', get_prop ''question'' args),
              (''uploads'', get_prop ''uploads'' args),
              (''chatId'', get_prop ''chatId'' args),
              (''overrideConfig'', get_prop ''overrideConfig'' args),
              (''streaming'', Bool False)] s of
        (Inr response, s') \<Rightarrow>
          (Inr (inline_success response), s')
      | (Inl error, s') \<Rightarrow>
          (case error_message error of
             Inl thrown \<Rightarrow> (Inl thrown, s')
           | Inr message \<Rightarrow> (Inr (inline_error ''Error running chatflow: '' message), s')))"
| "inline_call_tool flowiseClient api (create_prediction_with_lead args) s =
     (case flowiseClient
             [(''chatflowId'', get_prop ''chatflowId'' args),
              (''question'', get_prop ''question'' args),
              (''leadEmail'', get_prop ''leadEmail'' args),
              (''chatId'', get_prop ''chatId'' args),
              (''overrideConfig'', get_prop ''overrideConfig'' args),
              (''streaming'', Bool False)] s of
        (Inr response, s') \<Rightarrow>
          (Inr (inline_success response), s')
      | (Inl error, s') \<Rightarrow>
          (case error_message error of
             Inl thrown \<Rightarrow> (Inl thrown, s')
           | Inr message \<Rightarrow> (Inr (inline_error ''Error running chatflow: '' message), s')))"
| "inline_call_tool flowiseClient api list_chatflows s =
     (case api GET ''/chatflows'' None s of
        (Inr chatflows, s') \<Rightarrow>
          (Inr (inline_success chatflows), s')
      | (Inl error, s') \<Rightarrow>
          (case error_message error of
             Inl thrown \<Rightarrow> (Inl thrown, s')
           | Inr message \<Rightarrow> (Inr (inline_error ''Error listing chatflows: '' message), s')))"
| "inline_call_tool flowiseClient api (get_chatflow chatflowId) s =
     (case api GET (''/chatflows/'' @ chatflowId) None s of
        (Inr chatflow, s') \<Rightarrow>
          (Inr (inline_success chatflow), s')
      | (Inl error, s') \<Rightarrow>
          (case error_message error of
             Inl thrown \<Rightarrow> (Inl thrown, s')
           | Inr message \<Rightarrow> (Inr (inline_error ''Error getting chatflow: '' message), s')))"
| "inline_call_tool flowiseClient api (create_chatflow args) s =
     (case api POST ''/chatflows''
             (Some (Obj
                [(''name'', Str (create_name args)),
                 (''flowData'', opt_str (JSON_stringify (Obj (create_flowData args)) 0)),
                 (''type'',
                    js_or (opt_str (map_option chatflow_type_string (create_type args)))
                          (Str ''CHATFLOW'')),
                 (''chatbotConfig'',
                    (if truthy (opt_obj (create_chatbotConfig args))
                     then opt_str (JSON_stringify (opt_obj (create_chatbotConfig args)) 0)
                     else Undefined))])) s of
        (Inr chatflow, s') \<Rightarrow>
          (Inr (inline_success chatflow), s')
      | (Inl error, s') \<Rightarrow>
          (case error_message error of
             Inl thrown \<Rightarrow> (Inl thrown, s')
           | Inr message \<Rightarrow> (Inr (inline_error ''Error creating chatflow: '' message), s')))"
| "inline_call_tool flowiseClient api (update_chatflow args) s =
     (let updateData = [];
          updateData =
            (if truthy (opt_str (update_name args))
             then set_prop ''name'' (opt_str (update_name args)) updateData
             else updateData);
          updateData =
            (if truthy (opt_obj (update_flowData args))
             then set_prop ''flowData''
                    (opt_str (JSON_stringify (opt_obj (update_flowData args)) 0)) updateData
             else updateData);
          updateData =
            (if truthy (opt_obj (update_chatbotConfig args))
             then set_prop ''chatbotConfig''
                    (opt_str (JSON_stringify (opt_obj (update_chatbotConfig args)) 0)) updateData
             else updateData)
      in
        case api PUT (''/chatflows/'' @ update_chatflowId args) (Some (Obj updateData)) s of
           (Inr chatflow, s') \<Rightarrow>
             (Inr (inline_success chatflow), s')
         | (Inl error, s') \<Rightarrow>
             (case error_message error of
                Inl thrown \<Rightarrow> (Inl thrown, s')
              | Inr message \<Rightarrow> (Inr (inline_error ''Error updating chatflow: '' message), s')))"
| "inline_call_tool flowiseClient api (delete_chatflow chatflowId) s =
     (case api DELETE (''/chatflows/'' @ chatflowId) None s of
        (Inr result, s') \<Rightarrow>
          (Inr (inline_success
             (Obj [(''success'', Bool True), (''deleted'', Str chatflowId),
                   (''result'', result)])), s')
      | (Inl error, s') \<Rightarrow>
          (case error_message error of
             Inl thrown \<Rightarrow> (Inl thrown, s')
           | Inr message \<Rightarrow> (Inr (inline_error ''Error deleting chatflow: '' message), s')))"
| "inline_call_tool flowiseClient api list_nodes s =
     (case api GET ''/nodes'' None s of
        (Inr nodes, s') \<Rightarrow>
          (Inr (inline_success nodes), s')
      | (Inl error, s') \<Rightarrow>
          (case error_message error of
             Inl thrown \<Rightarrow> (Inl thrown, s')
           | Inr message \<Rightarrow> (Inr (inline_error ''Error listing nodes: '' message), s')))"
| "inline_call_tool flowiseClient api (get_nodes_by_category category) s =
     (case encodeURIComponent category of
        Inl error \<Rightarrow>
          (case error_message error of
             Inl thrown \<Rightarrow> (Inl thrown, s)
           | Inr message \<Rightarrow> (Inr (inline_error ''Error getting nodes by category: '' message), s))
      | Inr encoded \<Rightarrow>
          (case api GET (''/nodes/category/'' @ encoded) None s of
             (Inr nodes, s') \<Rightarrow>
               (Inr (inline_success nodes), s')
           | (Inl error, s') \<Rightarrow>
               (case error_message error of
                  Inl thrown \<Rightarrow> (Inl thrown, s')
                | Inr message \<Rightarrow> (Inr (inline_error ''Error getting nodes by category: '' message), s'))))"
| "inline_call_tool flowiseClient api (get_node nodeName) s =
     (case encodeURIComponent nodeName of
        Inl error \<Rightarrow>
          (case error_message error of
             Inl thrown \<Rightarrow> (Inl thrown, s)
           | Inr message \<Rightarrow> (Inr (inline_error ''Error getting node: '' message), s))
      | Inr encoded \<Rightarrow>
          (case api GET (''/nodes/'' @ encoded) None s of
             (Inr node, s') \<Rightarrow>
               (Inr (inline_success node), s')
           | (Inl error, s') \<Rightarrow>
               (case error_message error of
                  Inl thrown \<Rightarrow> (Inl thrown, s')
                | Inr message \<Rightarrow> (Inr (inline_error ''Error getting node: '' message), s'))))"

section \<open>Observing the calls a function makes\<close>

text \<open>
  A recording double, as the repository's tests build with \<^verbatim>\<open>vi.fn()\<close>: the world
  is the list of calls received so far, each call is appended to it, and \<open>respond\<close>
  decides the outcome from the arguments.
\<close>

definition recording_sdk :: "(jsobj \<Rightarrow> js_thrown + jsval) \<Rightarrow> (jsobj list) FlowiseSdkClient" where
  "recording_sdk respond params calls = (respond params, calls @ [params])"

definition recording_api ::
  "(http_method \<Rightarrow> string \<Rightarrow> jsval option \<Rightarrow> js_thrown + jsval)
   \<Rightarrow> ((http_method \<times> string \<times> jsval option) list) FlowiseApiClient" where
  "recording_api respond method endpoint body calls =
     (respond method endpoint body, calls @ [(method, endpoint, body)])"

definition recording_fetch ::
  "(string \<Rightarrow> RequestInit \<Rightarrow> js_thrown + Response) \<Rightarrow> ((string \<times> RequestInit) list) fetch" where
  "recording_fetch respond url init calls = (respond url init, calls @ [(url, init)])"

text \<open>The doubles that resolve to one fixed value, whatever the arguments.\<close>

definition resolved_api ::
  "jsval \<Rightarrow> http_method \<Rightarrow> string \<Rightarrow> jsval option \<Rightarrow> js_thrown + jsval" where
  "resolved_api v method endpoint body = Inr v"

definition resolved_fetch :: "Response \<Rightarrow> string \<Rightarrow> RequestInit \<Rightarrow> js_thrown + Response" where
  "resolved_fetch response url init = Inr response"

text \<open>
  The doubles that settle every call with one fixed outcome and leave the world as it
  is: \<^verbatim>\<open>mockResolvedValue\<close> for an outcome \<open>Inr v\<close>, \<^verbatim>\<open>mockRejectedValue\<close> for
  \<open>Inl e\<close>.
\<close>

definition settled_sdk :: "js_thrown + jsval \<Rightarrow> 's FlowiseSdkClient" where
  "settled_sdk outcome = (\<lambda>params s. (outcome, s))"

definition settled_api :: "js_thrown + jsval \<Rightarrow> 's FlowiseApiClient" where
  "settled_api outcome = (\<lambda>method endpoint body s. (outcome, s))"

section \<open>Notions the statements use\<close>

text \<open>
  The update payload as the specification words it: every field among \<open>name\<close>,
  \<open>flowData\<close> and \<open>chatbotConfig\<close> that the caller supplied, the two structured ones
  as JSON text.
\<close>

definition update_fields_supplied :: "update_params \<Rightarrow> jsobj" where
  "update_fields_supplied params =
     (case update_name params of None \<Rightarrow> [] | Some name \<Rightarrow> [(''name'', Str name)])
     @ (case update_flowData params of
          None \<Rightarrow> []
        | Some flowData \<Rightarrow> [(''flowData'', opt_str (JSON_stringify (Obj flowData) 0))])
     @ (case update_chatbotConfig params of
          None \<Rightarrow> []
        | Some chatbotConfig \<Rightarrow>
            [(''chatbotConfig'', opt_str (JSON_stringify (Obj chatbotConfig) 0))])"

text \<open>A character that \<^verbatim>\<open>JSON.stringify\<close> copies into a string literal as it is.\<close>

definition json_plain :: "char \<Rightarrow> bool" where
  "json_plain c = (QuoteJSONChar c = [c])"

text \<open>
  A string of code units has an unpaired surrogate when, read from the left with every
  leading surrogate taking the trailing surrogate right after it, a surrogate is left
  without its partner.
\<close>

fun unpaired_surrogate :: "code_unit list \<Rightarrow> bool" where
  "unpaired_surrogate [] = False"
| "unpaired_surrogate [c] = (isLeadingSurrogate c \<or> isTrailingSurrogate c)"
| "unpaired_surrogate (c # d # rest) =
     (if isLeadingSurrogate c then (if isTrailingSurrogate d then unpaired_surrogate rest else True)
      else if isTrailingSurrogate c then True
      else unpaired_surrogate (d # rest))"

text \<open>The code units of a string of ASCII characters.\<close>

definition ascii :: "string \<Rightarrow> code_unit list" where
  "ascii s = map of_char s"

text \<open>A tool call whose argument \<^verbatim>\<open>encodeURIComponent\<close> refuses.\<close>

definition malformed_argument :: "tool_call \<Rightarrow> bool" where
  "malformed_argument tc =
     (case tc of
        get_nodes_by_category category \<Rightarrow> unpaired_surrogate category
      | get_node nodeName \<Rightarrow> unpaired_surrogate nodeName
      | _ \<Rightarrow> False)"

text \<open>The fixed prefix of each tool's failure text.\<close>

definition error_prefix :: "tool_call \<Rightarrow> string" where
  "error_prefix tc =
     (case tc of
        create_prediction params \<Rightarrow> ''Error running chatflow: ''
      | create_prediction_with_history params \<Rightarrow> ''Error running chatflow: ''
      | create_prediction_with_files params \<Rightarrow> ''Error running chatflow: ''
      | create_prediction_with_lead params \<Rightarrow> ''Error running chatflow: ''
      | list_chatflows \<Rightarrow> ''Error listing chatflows: ''
      | get_chatflow chatflowId \<Rightarrow> ''Error getting chatflow: ''
      | create_chatflow params \<Rightarrow> ''Error creating chatflow: ''
      | update_chatflow params \<Rightarrow> ''Error updating chatflow: ''
      | delete_chatflow chatflowId \<Rightarrow> ''Error deleting chatflow: ''
      | list_nodes \<Rightarrow> ''Error listing nodes: ''
      | get_nodes_by_category category \<Rightarrow> ''Error getting nodes by category: ''
      | get_node nodeName \<Rightarrow> ''Error getting node: '')"

text \<open>
  The data a tool reports when its one downstream call resolves to \<open>v\<close>: the value
  itself, except that \<^verbatim>\<open>delete_chatflow\<close> wraps it.
\<close>

definition tool_result :: "tool_call \<Rightarrow> jsval \<Rightarrow> jsval" where
  "tool_result tc v =
     (case tc of
        delete_chatflow chatflowId \<Rightarrow>
          Obj [(''success'', Bool True), (''deleted'', Str chatflowId), (''result'', v)]
      | _ \<Rightarrow> v)"

text \<open>
  What destructuring keeps of a prediction tool's arguments: the named properties, in the
  order in which the inline callback lists them.
\<close>

definition pick :: "string list \<Rightarrow> jsobj \<Rightarrow> jsobj" where
  "pick keys args = map (\<lambda>k. (k, get_prop k args)) keys"

fun destructured :: "tool_call \<Rightarrow> tool_call" where
  "destructured (create_prediction args) =
     create_prediction (pick [''chatflowId'', ''question'', ''chatId'', ''overrideConfig''] args)"
| "destructured (create_prediction_with_history args) =
     create_prediction_with_history
       (pick [''chatflowId'', ''question'', ''history'', ''chatId'', ''overrideConfig''] args)"
| "destructured (create_prediction_with_files args) =
     create_prediction_with_files
       (pick [''chatflowId'', ''question'', ''uploads'', ''chatId'', ''overrideConfig''] args)"
| "destructured (create_prediction_with_lead args) =
     create_prediction_with_lead
       (pick [''chatflowId'', ''question'', ''leadEmail'', ''chatId'', ''overrideConfig''] args)"
| "destructured tc = tc"

section \<open>Basic facts\<close>

lemma map_of_set_prop: "map_of (set_prop k v ps) k' = (if k' = k then Some v else map_of ps k')"
  by (induction ps) auto

lemma falsy_values:
  "truthy v = (\<not> (v = Undefined \<or> v = Null \<or> v = Bool False \<or> v = Num 0 \<or> v = Str []))"
  by (cases v) auto

lemma stringify_Obj: "\<exists>str. JSON_stringify (Obj ps) space = Some str"
  by (simp add: JSON_stringify_def)

lemma stringify_truthy: "truthy v \<Longrightarrow> \<exists>str. JSON_stringify v space = Some str"
  by (cases v) (simp_all add: JSON_stringify_def)

text \<open>
  Every handler is one \<^verbatim>\<open>try\<close>/\<^verbatim>\<open>catch\<close> around one awaited call: the world after
  the handler is the world after that call, and the result is decided by its outcome.
\<close>

lemma handler_snd:
  "snd (case r of
          (Inr v, s') \<Rightarrow> (f v, s')
        | (Inl e, s') \<Rightarrow> (case m e of Inl t \<Rightarrow> (Inl t, s') | Inr msg \<Rightarrow> (g msg, s'))) = snd r"
  by (simp split: prod.split sum.split)

lemma handler_fst:
  "fst (case r of
          (Inr v, s') \<Rightarrow> (f v, s')
        | (Inl e, s') \<Rightarrow> (case m e of Inl t \<Rightarrow> (Inl t, s') | Inr msg \<Rightarrow> (g msg, s'))) =
   (case fst r of
      Inr v \<Rightarrow> f v
    | Inl e \<Rightarrow> (case m e of Inl t \<Rightarrow> Inl t | Inr msg \<Rightarrow> g msg))"
  by (simp split: prod.split sum.split)

lemma recording_sdk_snd: "snd (recording_sdk respond params calls) = calls @ [params]"
  by (simp add: recording_sdk_def)

lemma recording_api_snd:
  "snd (recording_api respond method endpoint body calls) = calls @ [(method, endpoint, body)]"
  by (simp add: recording_api_def)

lemma recording_fetch_snd:
  "snd (recording_fetch respond url init calls) = calls @ [(url, init)]"
  by (simp add: recording_fetch_def)

text \<open>The transport client performs exactly the one \<^verbatim>\<open>fetch\<close>, with this URL and these options.\<close>

lemma api_world:
  "snd (createFlowiseApiClient config fetch method endpoint body s) =
     snd (fetch (baseUrl config @ ''/api/v1'' @ endpoint)
        \<lparr>init_method = method,
         init_headers =
           (if apiKey config = [] then [(''Content-Type'', ''application/json'')]
            else [(''Content-Type'', ''application/json''),
                  (''Authorization'', ''Bearer '' @ apiKey config)]),
         init_body =
           (case body of None \<Rightarrow> None
            | Some v \<Rightarrow> if truthy v then JSON_stringify v 0 else None)\<rparr> s)"
proof -
  have outcome: "snd (case r of
           (Inl error, s') \<Rightarrow> (Inl error, s')
         | (Inr response, s') \<Rightarrow>
             if \<not> resp_ok response then
               (case resp_text response of
                  Inl error \<Rightarrow> (Inl error, s')
                | Inr errorText \<Rightarrow>
                    (Inl (Error (''Flowise API error ('' @ show_nat (resp_status response)
                                 @ ''): '' @ errorText)), s'))
             else (resp_json response, s')) = snd r"
    for r :: "(js_thrown + Response) \<times> 's"
    by (simp split: prod.split sum.split)
  show ?thesis
    unfolding createFlowiseApiClient_def Let_def outcome
    by (cases body) simp_all
qed

lemma update_recorded:
  "\<exists>payload.
     snd (handleUpdateChatflow (recording_api respond) params calls) =
       calls @ [(PUT, ''/chatflows/'' @ update_chatflowId params, payload)]"
  unfolding handleUpdateChatflow_def Let_def handler_snd recording_api_snd
  by (intro exI) (rule refl)

lemma get_recorded:
  "snd (handleGetChatflow (recording_api respond) chatflowId calls) =
     calls @ [(GET, ''/chatflows/'' @ chatflowId, None)]"
  unfolding handleGetChatflow_def handler_snd recording_api_snd by simp

lemma delete_recorded:
  "snd (handleDeleteChatflow (recording_api respond) chatflowId calls) =
     calls @ [(DELETE, ''/chatflows/'' @ chatflowId, None)]"
  unfolding handleDeleteChatflow_def handler_snd recording_api_snd by simp

subsection \<open>The catch block\<close>

lemma error_message_Error: "error_message (Error message) = Inr message"
  by (simp add: error_message_def)

lemma error_message_Thrown: "error_message (Thrown v) = ToString v"
  by (simp add: error_message_def)

subsection \<open>Percent-encoding\<close>

lemma percentEncode_length:
  "length (percentEncode s) = length s + 2 * length (filter (\<lambda>c. \<not> isUnreserved c) s)"
  by (induction s) (simp_all add: percentEncode_def percentEncodeOctet_def)

lemma percentEncode_changes:
  assumes "\<not> list_all isUnreserved s"
  shows "percentEncode s \<noteq> s"
proof
  assume eq: "percentEncode s = s"
  from assms obtain c where "c \<in> set s" "\<not> isUnreserved c"
    by (auto simp: list_all_iff)
  then have "filter (\<lambda>c. \<not> isUnreserved c) s \<noteq> []"
    by (auto simp: filter_empty_conv)
  then have "length s < length (percentEncode s)"
    unfolding percentEncode_length by simp
  with eq show False by simp
qed

lemma hexUpper_unreserved: "isUnreserved (hexUpper n)"
proof -
  have "list_all isUnreserved ''0123456789ABCDEF''"
    by (simp add: isUnreserved_def)
  moreover have "n mod 16 < length ''0123456789ABCDEF''"
    by simp
  ultimately show ?thesis
    unfolding hexUpper_def list_all_length by blast
qed

text \<open>An encoded component holds no character but the unreserved ones and the percent sign.\<close>

lemma percentEncode_chars:
  "list_all (\<lambda>c. isUnreserved c \<or> c = CHR ''%'') (percentEncode s)"
  by (induction s)
     (simp_all add: percentEncode_def percentEncodeOctet_def hexUpper_unreserved)

text \<open>\<^verbatim>\<open>encodeURIComponent\<close> throws exactly on the strings with an unpaired surrogate.\<close>

lemma utf8_encode_throws:
  "unpaired_surrogate u \<Longrightarrow> utf8_encode u = Inl (Error ''URI malformed'')"
  by (induction u rule: unpaired_surrogate.induct) (auto split: if_splits)

lemma utf8_encode_returns:
  "\<not> unpaired_surrogate u \<Longrightarrow> \<exists>octets. utf8_encode u = Inr octets"
  by (induction u rule: unpaired_surrogate.induct) (auto split: if_splits)

lemma encodeURIComponent_throws:
  "unpaired_surrogate u \<Longrightarrow> encodeURIComponent u = Inl (Error ''URI malformed'')"
  by (simp add: encodeURIComponent_def utf8_encode_throws)

lemma encodeURIComponent_returns:
  "\<not> unpaired_surrogate u \<Longrightarrow> \<exists>encoded. encodeURIComponent u = Inr encoded"
  using utf8_encode_returns [of u] by (auto simp: encodeURIComponent_def)

text \<open>
  On ASCII text the octets are the characters, so that the built-in is the
  percent-encoding of the text itself.
\<close>

lemma ascii_code_unit:
  assumes "(of_char c :: nat) < 128"
  shows "\<not> isLeadingSurrogate (of_char c)" "\<not> isTrailingSurrogate (of_char c)"
    "utf8_octets (uint (of_char c :: code_unit)) = [c]"
proof -
  have small: "(of_char c :: int) < 128" "0 \<le> (of_char c :: int)"
    using assms by (simp_all flip: of_nat_of_char [where ?'a = int])
  have u: "uint (of_char c :: code_unit) = of_char c"
  proof -
    have "uint (word_of_int (of_char c) :: code_unit) = take_bit LENGTH(16) (of_char c :: int)"
      by (rule uint_word_of_int_eq)
    with small show ?thesis
      by (simp add: of_int_of_char take_bit_int_eq_self)
  qed
  show "\<not> isLeadingSurrogate (of_char c)"
    using small by (simp add: isLeadingSurrogate_def word_le_def u)
  show "\<not> isTrailingSurrogate (of_char c)"
    using small by (simp add: isTrailingSurrogate_def word_le_def u)
  show "utf8_octets (uint (of_char c :: code_unit)) = [c]"
    using small by (simp add: utf8_octets_def u)
qed

lemma utf8_encode_ascii:
  "list_all (\<lambda>c. (of_char c :: nat) < 128) s \<Longrightarrow> utf8_encode (ascii s) = Inr s"
  by (induction s) (simp_all add: ascii_def ascii_code_unit)

lemma encodeURIComponent_ascii:
  "list_all (\<lambda>c. (of_char c :: nat) < 128) s \<Longrightarrow>
   encodeURIComponent (ascii s) = Inr (percentEncode s)"
  by (simp add: encodeURIComponent_def utf8_encode_ascii)

text \<open>What the two node handlers do, by the two cases of the encoding.\<close>

lemma nodes_by_category_malformed:
  "unpaired_surrogate category \<Longrightarrow>
   handleGetNodesByCategory api category s =
     (Inr (errorResponse ''Error getting nodes by category: URI malformed''), s)"
  by (simp add: handleGetNodesByCategory_def encodeURIComponent_throws error_message_Error)

lemma node_malformed:
  "unpaired_surrogate nodeName \<Longrightarrow>
   handleGetNode api nodeName s = (Inr (errorResponse ''Error getting node: URI malformed''), s)"
  by (simp add: handleGetNode_def encodeURIComponent_throws error_message_Error)

lemma nodes_by_category_encoded:
  "encodeURIComponent category = Inr encoded \<Longrightarrow>
   handleGetNodesByCategory api category s =
     (case api GET (''/nodes/category/'' @ encoded) None s of
        (Inr nodes, s') \<Rightarrow> (Inr (successResponse nodes), s')
      | (Inl error, s') \<Rightarrow>
          (case error_message error of
             Inl thrown \<Rightarrow> (Inl thrown, s')
           | Inr message \<Rightarrow>
               (Inr (errorResponse (''Error getting nodes by category: '' @ message)), s')))"
  unfolding handleGetNodesByCategory_def by (simp only: sum.case)

lemma node_encoded:
  "encodeURIComponent nodeName = Inr encoded \<Longrightarrow>
   handleGetNode api nodeName s =
     (case api GET (''/nodes/'' @ encoded) None s of
        (Inr node, s') \<Rightarrow> (Inr (successResponse node), s')
      | (Inl error, s') \<Rightarrow>
          (case error_message error of
             Inl thrown \<Rightarrow> (Inl thrown, s')
           | Inr message \<Rightarrow> (Inr (errorResponse (''Error getting node: '' @ message)), s')))"
  unfolding handleGetNode_def by (simp only: sum.case)

subsection \<open>The text of the delete response\<close>

lemma quote_plain: "list_all json_plain s \<Longrightarrow> QuoteJSONString s = [CHR 0x22] @ s @ [CHR 0x22]"
  by (induction s) (simp_all add: QuoteJSONString_def json_plain_def)

lemma quote_key_success: "QuoteJSONString ''success'' = [CHR 0x22] @ ''success'' @ [CHR 0x22]"
  by (simp add: QuoteJSONString_def QuoteJSONChar_def)

lemma quote_key_deleted: "QuoteJSONString ''deleted'' = [CHR 0x22] @ ''deleted'' @ [CHR 0x22]"
  by (simp add: QuoteJSONString_def QuoteJSONChar_def)

lemma two_blanks: "replicate (min 10 2) c = [c, c]"
  by (simp add: numeral_2_eq_2)

lemma delete_text:
  "\<exists>rest. JSON_stringify
       (Obj [(''success'', Bool True), (''deleted'', Str chatflowId), (''result'', r)]) 2 =
     Some ((''{'' @ [CHR 0x0A] @ ''  '') @ (''\"success\": true'') @ ('','' @ [CHR 0x0A] @ ''  '')
           @ (''\"deleted\": '' @ QuoteJSONString chatflowId) @ rest)"
  unfolding JSON_stringify_def two_blanks
  by (cases "SerializeJSONProperty ''  '' ''  '' r")
     (simp_all add: wrap_json_def quote_key_success quote_key_deleted)

lemma delete_text_contains:
  "\<exists>t. JSON_stringify
       (Obj [(''success'', Bool True), (''deleted'', Str chatflowId), (''result'', r)]) 2 = Some t
     \<and> sublist ''\"success\": true'' t
     \<and> sublist (''\"deleted\": '' @ QuoteJSONString chatflowId) t"
proof -
  obtain rest where t: "JSON_stringify
       (Obj [(''success'', Bool True), (''deleted'', Str chatflowId), (''result'', r)]) 2 =
     Some ((''{'' @ [CHR 0x0A] @ ''  '') @ (''\"success\": true'') @ ('','' @ [CHR 0x0A] @ ''  '')
           @ (''\"deleted\": '' @ QuoteJSONString chatflowId) @ rest)"
    using delete_text by blast
  have a: "sublist ''\"success\": true''
      ((''{'' @ [CHR 0x0A] @ ''  '') @ (''\"success\": true'') @ ('','' @ [CHR 0x0A] @ ''  '')
           @ (''\"deleted\": '' @ QuoteJSONString chatflowId) @ rest)"
    by (rule sublist_appendI)
  have b: "sublist (''\"deleted\": '' @ QuoteJSONString chatflowId)
      (((''{'' @ [CHR 0x0A] @ ''  '') @ (''\"success\": true'') @ ('','' @ [CHR 0x0A] @ ''  ''))
           @ (''\"deleted\": '' @ QuoteJSONString chatflowId) @ rest)"
    by (rule sublist_appendI)
  show ?thesis
    using a b unfolding t by (simp only: append_assoc option.inject simp_thms ex_simps)
qed

subsection \<open>Every tool at once\<close>

lemmas handler_defs =
  handleCreatePrediction_def handleCreatePredictionWithHistory_def
  handleCreatePredictionWithFiles_def handleCreatePredictionWithLead_def
  handleListChatflows_def handleGetChatflow_def handleCreateChatflow_def
  handleUpdateChatflow_def handleDeleteChatflow_def handleListNodes_def

text \<open>A response is one text item, with the error flag absent or true.\<close>

lemma response_shapes:
  "(\<exists>t. content (successResponse data) = [\<lparr>item_type = ''text'', item_text = t\<rparr>])
   \<and> (isError (successResponse data) = None \<or> isError (successResponse data) = Some True)"
  "(\<exists>t. content (errorResponse message) = [\<lparr>item_type = ''text'', item_text = t\<rparr>])
   \<and> (isError (errorResponse message) = None \<or> isError (errorResponse message) = Some True)"
  by (simp_all add: successResponse_def errorResponse_def)

lemma handler_shape:
  assumes "fst (case r of
                  (Inr v, s') \<Rightarrow> (Inr (successResponse (f v)), s')
                | (Inl e, s') \<Rightarrow>
                    (case m e of
                       Inl t \<Rightarrow> (Inl t, s')
                     | Inr msg \<Rightarrow> (Inr (errorResponse (g msg)), s'))) = Inr response"
  shows "(\<exists>t. content response = [\<lparr>item_type = ''text'', item_text = t\<rparr>])
         \<and> (isError response = None \<or> isError response = Some True)"
proof (cases "fst r")
  case (Inl e)
  with assms show ?thesis
    unfolding handler_fst by (cases "m e") (use response_shapes in auto)
next
  case (Inr v)
  with assms show ?thesis
    unfolding handler_fst using response_shapes by auto
qed

lemma call_tool_shape:
  assumes "fst (call_tool client api tc s) = Inr response"
  shows "(\<exists>t. content response = [\<lparr>item_type = ''text'', item_text = t\<rparr>])
         \<and> (isError response = None \<or> isError response = Some True)"
proof (cases tc)
  case (get_nodes_by_category category)
  show ?thesis
  proof (cases "unpaired_surrogate category")
    case True
    with assms get_nodes_by_category show ?thesis
      using response_shapes by (auto simp: nodes_by_category_malformed)
  next
    case False
    then obtain encoded where "encodeURIComponent category = Inr encoded"
      using encodeURIComponent_returns by blast
    with assms get_nodes_by_category show ?thesis
      by (simp only: call_tool.simps nodes_by_category_encoded) (rule handler_shape)
  qed
next
  case (get_node nodeName)
  show ?thesis
  proof (cases "unpaired_surrogate nodeName")
    case True
    with assms get_node show ?thesis
      using response_shapes by (auto simp: node_malformed)
  next
    case False
    then obtain encoded where "encodeURIComponent nodeName = Inr encoded"
      using encodeURIComponent_returns by blast
    with assms get_node show ?thesis
      by (simp only: call_tool.simps node_encoded) (rule handler_shape)
  qed
qed (insert assms, hypsubst, simp only: call_tool.simps handler_defs Let_def,
     erule handler_shape)+

text \<open>When the downstream call resolves.\<close>

lemma call_tool_resolved:
  "fst (call_tool (\<lambda>params s. (Inr v, w1 params s))
                  (\<lambda>method endpoint body s. (Inr v, w2 method endpoint body s)) tc s)
   = Inr (if malformed_argument tc then errorResponse (error_prefix tc @ ''URI malformed'')
          else successResponse (tool_result tc v))"
proof (cases tc)
  case (get_nodes_by_category category)
  show ?thesis
  proof (cases "unpaired_surrogate category")
    case True
    then show ?thesis
      unfolding get_nodes_by_category
      by (simp add: nodes_by_category_malformed malformed_argument_def error_prefix_def)
  next
    case False
    then obtain encoded where "encodeURIComponent category = Inr encoded"
      using encodeURIComponent_returns by blast
    with False show ?thesis
      unfolding get_nodes_by_category
      by (simp only: call_tool.simps nodes_by_category_encoded handler_fst fst_conv sum.case
            malformed_argument_def tool_result_def tool_call.case if_False)
  qed
next
  case (get_node nodeName)
  show ?thesis
  proof (cases "unpaired_surrogate nodeName")
    case True
    then show ?thesis
      unfolding get_node
      by (simp add: node_malformed malformed_argument_def error_prefix_def)
  next
    case False
    then obtain encoded where "encodeURIComponent nodeName = Inr encoded"
      using encodeURIComponent_returns by blast
    with False show ?thesis
      unfolding get_node
      by (simp only: call_tool.simps node_encoded handler_fst fst_conv sum.case
            malformed_argument_def tool_result_def tool_call.case if_False)
  qed
qed (simp_all only: call_tool.simps handler_defs Let_def handler_fst fst_conv sum.case
       malformed_argument_def tool_result_def tool_call.case if_False)

text \<open>When the downstream call throws and the catch block finds a message.\<close>

lemma call_tool_rejected:
  assumes "error_message error = Inr message"
  shows "fst (call_tool (\<lambda>params s. (Inl error, w1 params s))
                  (\<lambda>method endpoint body s. (Inl error, w2 method endpoint body s)) tc s)
   = Inr (errorResponse
            (error_prefix tc @ (if malformed_argument tc then ''URI malformed'' else message)))"
proof (cases tc)
  case (get_nodes_by_category category)
  show ?thesis
  proof (cases "unpaired_surrogate category")
    case True
    then show ?thesis
      unfolding get_nodes_by_category
      by (simp add: nodes_by_category_malformed malformed_argument_def error_prefix_def)
  next
    case False
    then obtain encoded where "encodeURIComponent category = Inr encoded"
      using encodeURIComponent_returns by blast
    with False show ?thesis
      unfolding get_nodes_by_category
      by (simp only: call_tool.simps nodes_by_category_encoded handler_fst fst_conv sum.case
            assms malformed_argument_def error_prefix_def tool_call.case if_False)
  qed
next
  case (get_node nodeName)
  show ?thesis
  proof (cases "unpaired_surrogate nodeName")
    case True
    then show ?thesis
      unfolding get_node
      by (simp add: node_malformed malformed_argument_def error_prefix_def)
  next
    case False
    then obtain encoded where "encodeURIComponent nodeName = Inr encoded"
      using encodeURIComponent_returns by blast
    with False show ?thesis
      unfolding get_node
      by (simp only: call_tool.simps node_encoded handler_fst fst_conv sum.case
            assms malformed_argument_def error_prefix_def tool_call.case if_False)
  qed
qed (simp_all only: call_tool.simps handler_defs Let_def handler_fst fst_conv sum.case
       assms malformed_argument_def error_prefix_def tool_call.case if_False)

text \<open>When the downstream call throws and the catch block throws in its turn.\<close>

lemma call_tool_escapes:
  assumes "error_message error = Inl thrown" and "\<not> malformed_argument tc"
  shows "fst (call_tool (\<lambda>params s. (Inl error, w1 params s))
                  (\<lambda>method endpoint body s. (Inl error, w2 method endpoint body s)) tc s)
   = Inl thrown"
proof (cases tc)
  case (get_nodes_by_category category)
  with assms(2) have "\<not> unpaired_surrogate category"
    by (simp add: malformed_argument_def)
  then obtain encoded where "encodeURIComponent category = Inr encoded"
    using encodeURIComponent_returns by blast
  then show ?thesis
    unfolding get_nodes_by_category
    by (simp only: call_tool.simps nodes_by_category_encoded handler_fst fst_conv sum.case
          assms(1))
next
  case (get_node nodeName)
  with assms(2) have "\<not> unpaired_surrogate nodeName"
    by (simp add: malformed_argument_def)
  then obtain encoded where "encodeURIComponent nodeName = Inr encoded"
    using encodeURIComponent_returns by blast
  then show ?thesis
    unfolding get_node
    by (simp only: call_tool.simps node_encoded handler_fst fst_conv sum.case assms(1))
qed (simp_all only: call_tool.simps handler_defs Let_def handler_fst fst_conv sum.case assms(1))

subsection \<open>The inline variant\<close>

text \<open>
  The inline transport function is the transport client at the configuration read from
  the environment, and each inline callback behaves as the handler of the same tool
  (for a prediction tool, applied to the destructured arguments). Every statement below
  about a handler or about \<open>call_tool\<close> therefore holds of the inline callbacks too.
\<close>

lemma flowiseApi_same:
  "flowiseApi FLOWISE_BASE_URL FLOWISE_API_KEY =
   createFlowiseApiClient \<lparr>baseUrl = FLOWISE_BASE_URL, apiKey = FLOWISE_API_KEY\<rparr>"
  by (intro ext)
     (simp only: flowiseApi_def createFlowiseApiClient_def FlowiseApiConfig.select_convs)

lemma inline_responses:
  "inline_success data = successResponse data"
  "inline_error label errorMessage = errorResponse (label @ errorMessage)"
  by (simp_all only: inline_success_def inline_error_def successResponse_def errorResponse_def)

lemma set_streaming:
  "set_prop ''streaming'' v (pick [''chatflowId'', ''question'', ''chatId'', ''overrideConfig''] args)
   = pick [''chatflowId'', ''question'', ''chatId'', ''overrideConfig''] args @ [(''streaming'', v)]"
  "set_prop ''streaming'' v
     (pick [''chatflowId'', ''question'', ''history'', ''chatId'', ''overrideConfig''] args)
   = pick [''chatflowId'', ''question'', ''history'', ''chatId'', ''overrideConfig''] args
     @ [(''streaming'', v)]"
  "set_prop ''streaming'' v
     (pick [''chatflowId'', ''question'', ''uploads'', ''chatId'', ''overrideConfig''] args)
   = pick [''chatflowId'', ''question'', ''uploads'', ''chatId'', ''overrideConfig''] args
     @ [(''streaming'', v)]"
  "set_prop ''streaming'' v
     (pick [''chatflowId'', ''question'', ''leadEmail'', ''chatId'', ''overrideConfig''] args)
   = pick [''chatflowId'', ''question'', ''leadEmail'', ''chatId'', ''overrideConfig''] args
     @ [(''streaming'', v)]"
  by (simp_all add: pick_def)

lemma pick_unfold:
  "pick [] args = []"
  "pick (k # ks) args = (k, get_prop k args) # pick ks args"
  by (simp_all add: pick_def)

lemma inline_same:
  "inline_call_tool client api tc s = call_tool client api (destructured tc) s"
  by (cases tc;
      simp only: inline_call_tool.simps call_tool.simps destructured.simps handler_defs
        handleGetNodesByCategory_def handleGetNode_def inline_responses set_streaming;
      (simp only: pick_unfold append_Cons append_Nil)?)

lemma inline_streaming_false:
  "(\<exists>arg. snd (inline_call_tool (recording_sdk respond) api (create_prediction args) calls)
            = calls @ [arg]
          \<and> get_prop ''streaming'' arg = Bool False)
   \<and> (\<exists>arg. snd (inline_call_tool (recording_sdk respond) api
                     (create_prediction_with_history args) calls) = calls @ [arg]
          \<and> get_prop ''streaming'' arg = Bool False)
   \<and> (\<exists>arg. snd (inline_call_tool (recording_sdk respond) api
                     (create_prediction_with_files args) calls) = calls @ [arg]
          \<and> get_prop ''streaming'' arg = Bool False)
   \<and> (\<exists>arg. snd (inline_call_tool (recording_sdk respond) api
                     (create_prediction_with_lead args) calls) = calls @ [arg]
          \<and> get_prop ''streaming'' arg = Bool False)"
  unfolding inline_call_tool.simps handler_snd recording_sdk_snd
  by (simp add: get_prop_def)

subsection \<open>The model on the scenarios of the repository's tests\<close>

lemma example_list_chatflows:
  "fst (handleListChatflows
          (createFlowiseApiClient \<lparr>baseUrl = ''http://localhost:3000'', apiKey = []\<rparr>
             (recording_fetch (resolved_fetch \<lparr>resp_ok = True, resp_status = 200,
                resp_text = Inr ''[]'',
                resp_json = Inr (Arr [Obj [(''id'', Str ''1''), (''name'', Str ''Flow 1'')]])\<rparr>)))
          [])
   = Inr \<lparr>content = [\<lparr>item_type = ''text'',
        item_text = Some (''['' @ [CHR 0x0A] @ ''  {'' @ [CHR 0x0A]
                          @ ''    \"id\": \"1\",'' @ [CHR 0x0A]
                          @ ''    \"name\": \"Flow 1\"'' @ [CHR 0x0A]
                          @ ''  }'' @ [CHR 0x0A] @ '']'')\<rparr>],
      isError = None\<rparr>"
  by code_simp

lemma example_not_found:
  "fst (handleGetChatflow
          (createFlowiseApiClient \<lparr>baseUrl = ''http://localhost:3000'', apiKey = ''test-key''\<rparr>
             (recording_fetch (resolved_fetch \<lparr>resp_ok = False, resp_status = 404,
                resp_text = Inr ''Chatflow not found'', resp_json = Inr Null\<rparr>)))
          ''999'' [])
   = Inr \<lparr>content = [\<lparr>item_type = ''text'',
        item_text = Some ''Error getting chatflow: Flowise API error (404): Chatflow not found''\<rparr>],
      isError = Some True\<rparr>
   \<and> snd (handleGetChatflow
          (createFlowiseApiClient \<lparr>baseUrl = ''http://localhost:3000'', apiKey = ''test-key''\<rparr>
             (recording_fetch (resolved_fetch \<lparr>resp_ok = False, resp_status = 404,
                resp_text = Inr ''Chatflow not found'', resp_json = Inr Null\<rparr>)))
          ''999'' [])
   = [(''http://localhost:3000/api/v1/chatflows/999'',
       \<lparr>init_method = GET,
        init_headers = [(''Content-Type'', ''application/json''),
                        (''Authorization'', ''Bearer test-key'')],
        init_body = None\<rparr>)]"
  by code_simp

lemma example_update_body:
  "map (init_body \<circ> snd) (snd (handleUpdateChatflow
          (createFlowiseApiClient \<lparr>baseUrl = ''http://localhost:3000'', apiKey = []\<rparr>
             (recording_fetch (resolved_fetch \<lparr>resp_ok = True, resp_status = 200,
                resp_text = Inr ''{}'', resp_json = Inr (Obj [])\<rparr>)))
          \<lparr>update_chatflowId = ''123'', update_name = Some ''New Name'',
           update_flowData = None,
           update_chatbotConfig = Some [(''key'', Str ''value'')]\<rparr> []))
   = [Some (''{\"name\":\"New Name\",\"chatbotConfig\":\"{'' @ [CHR 0x5C] @ ''\"key'' @ [CHR 0x5C]
            @ ''\":'' @ [CHR 0x5C] @ ''\"value'' @ [CHR 0x5C] @ ''\"}\"}'')]"
  by code_simp

text \<open>
  A name beyond ASCII: the code units of \<^verbatim>\<open>caf\<close>, e with acute accent, a blank and
  the surrogate pair of U+1F600 give the UTF-8 octets, percent-encoded.
\<close>

lemma example_encode_unicode:
  "encodeURIComponent [0x63, 0x61, 0x66, 0xE9, 0x20, 0xD83D, 0xDE00]
   = Inr ''caf%C3%A9%20%F0%9F%98%80''"
  by code_simp

text \<open>Thrown values and their string forms.\<close>

lemma example_strings_of_thrown:
  "error_message (Error ''Network error'') = Inr ''Network error''"
  "error_message (Thrown (Str ''boom'')) = Inr ''boom''"
  "error_message (Thrown (Arr [Num 1, Null, Arr [Str ''a'', Bool True], Obj []]))
   = Inr ''1,,a,true,[object Object]''"
  "error_message (Thrown (Obj [(''toString'', Str ''x'')]))
   = Inl (Error ''Cannot convert object to primitive value'')"
  by code_simp+

section \<open>The claims\<close>

subsection \<open>C1: the payload of \<^verbatim>\<open>update_chatflow\<close>\<close>

text \<open>
  C1 (as amended). For every call to \<^verbatim>\<open>update_chatflow\<close> the handler issues one PUT
  request to \<^verbatim>\<open>/chatflows/{chatflowId}\<close> whose payload holds exactly the fields among
  \<open>name\<close>, \<open>flowData\<close>, \<open>chatbotConfig\<close> that the caller supplied, in this order, with
  \<open>flowData\<close> and \<open>chatbotConfig\<close> as JSON text, where a \<open>name\<close> that is the empty string
  counts as not supplied. Supplying none yields the empty object.
\<close>

theorem C1_update_payload:
  "snd (handleUpdateChatflow (recording_api respond) params calls) =
     calls @ [(PUT, ''/chatflows/'' @ update_chatflowId params,
               Some (Obj (update_fields_supplied
                  (if update_name params = Some [] then params\<lparr>update_name := None\<rparr>
                   else params))))]"
  unfolding handleUpdateChatflow_def Let_def handler_snd recording_api_snd
  by (cases "update_name params"; cases "update_flowData params";
      cases "update_chatbotConfig params")
     (simp_all add: update_fields_supplied_def opt_str_def opt_obj_def)

text \<open>
  The claim as stated includes a supplied field even when its value is falsy. The handler
  guards each field with \<^verbatim>\<open>if (params.name)\<close>: called with the name \<^verbatim>\<open>""\<close> and
  nothing else it sends the empty object, where the claim asks for the field \<open>name\<close>.
\<close>

theorem C1_counterexample:
  "snd (handleUpdateChatflow (recording_api (resolved_api (Obj [])))
          \<lparr>update_chatflowId = ''123'', update_name = Some [], update_flowData = None,
           update_chatbotConfig = None\<rparr> [])
     = [(PUT, ''/chatflows/123'', Some (Obj []))]
   \<and> update_fields_supplied
         \<lparr>update_chatflowId = ''123'', update_name = Some [], update_flowData = None,
          update_chatbotConfig = None\<rparr> = [(''name'', Str [])]"
  unfolding handleUpdateChatflow_def Let_def handler_snd recording_api_snd
  by (simp add: update_fields_supplied_def opt_str_def opt_obj_def)

subsection \<open>C2: the request body\<close>

text \<open>
  C2 (as amended). For every invocation of \<^verbatim>\<open>request(method, endpoint, body?)\<close> the
  client performs one \<^verbatim>\<open>fetch\<close>. When the body argument is omitted, or is one of the
  falsy values \<^verbatim>\<open>undefined\<close>, \<^verbatim>\<open>null\<close>, \<^verbatim>\<open>false\<close>, \<^verbatim>\<open>0\<close>, \<^verbatim>\<open>""\<close>, no request
  body is sent; for every other value the request body is exactly its JSON serialization.
\<close>

theorem C2_request_body:
  "\<exists>url init.
     snd (createFlowiseApiClient config (recording_fetch respond) method endpoint body calls)
       = calls @ [(url, init)]
     \<and> init_body init =
         (case body of
            None \<Rightarrow> None
          | Some v \<Rightarrow>
              if v = Undefined \<or> v = Null \<or> v = Bool False \<or> v = Num 0 \<or> v = Str []
              then None else JSON_stringify v 0)"
  unfolding api_world recording_fetch_snd by (simp add: falsy_values split: option.split)

text \<open>
  The claim as stated covers falsy bodies too. The client tests \<^verbatim>\<open>body ? ... : undefined\<close>:
  given the body \<^verbatim>\<open>false\<close> it sends no request body, while the JSON serialization of
  \<^verbatim>\<open>false\<close> is the text \<^verbatim>\<open>false\<close>.
\<close>

theorem C2_counterexample:
  "map (init_body \<circ> snd)
     (snd (createFlowiseApiClient \<lparr>baseUrl = ''http://localhost:3000'', apiKey = ''test-key''\<rparr>
            (recording_fetch (resolved_fetch \<lparr>resp_ok = True, resp_status = 200,
               resp_text = Inr ''{}'', resp_json = Inr (Obj [])\<rparr>))
            POST ''/chatflows'' (Some (Bool False)) [])) = [None]
   \<and> JSON_stringify (Bool False) 0 = Some ''false''"
  unfolding api_world recording_fetch_snd by (simp add: JSON_stringify_def)

subsection \<open>C3: streaming is forced off\<close>

text \<open>
  C3. Each of the four prediction handlers, for every parameter object (also one that
  carries a \<open>streaming\<close> property of its own), calls \<^verbatim>\<open>createPrediction\<close> once, with an
  argument whose \<open>streaming\<close> property is \<^verbatim>\<open>false\<close>.
\<close>

theorem C3_streaming_false:
  "(\<exists>arg. snd (handleCreatePrediction (recording_sdk respond) params calls) = calls @ [arg]
          \<and> get_prop ''streaming'' arg = Bool False)
   \<and> (\<exists>arg. snd (handleCreatePredictionWithHistory (recording_sdk respond) params calls)
            = calls @ [arg]
          \<and> get_prop ''streaming'' arg = Bool False)
   \<and> (\<exists>arg. snd (handleCreatePredictionWithFiles (recording_sdk respond) params calls)
            = calls @ [arg]
          \<and> get_prop ''streaming'' arg = Bool False)
   \<and> (\<exists>arg. snd (handleCreatePredictionWithLead (recording_sdk respond) params calls)
            = calls @ [arg]
          \<and> get_prop ''streaming'' arg = Bool False)"
  unfolding handleCreatePrediction_def handleCreatePredictionWithHistory_def
    handleCreatePredictionWithFiles_def handleCreatePredictionWithLead_def
    handler_snd recording_sdk_snd
  by (simp add: get_prop_def map_of_set_prop)

subsection \<open>C4: the request headers\<close>

text \<open>
  C4. Every request of the transport client carries the header \<open>Content-Type\<close> with the
  value \<^verbatim>\<open>application/json\<close>. With an empty \<open>apiKey\<close> that is its only header; with any
  other \<open>apiKey\<close> it also carries \<open>Authorization\<close>, whose value is \<^verbatim>\<open>Bearer\<close>, a blank and
  the key.
\<close>

theorem C4_request_headers:
  "\<exists>url init.
     snd (createFlowiseApiClient config (recording_fetch respond) method endpoint body calls)
       = calls @ [(url, init)]
     \<and> map_of (init_headers init) ''Content-Type'' = Some ''application/json''
     \<and> map_of (init_headers init) ''Authorization''
         = (if apiKey config = [] then None else Some (''Bearer '' @ apiKey config))
     \<and> map fst (init_headers init)
         = (if apiKey config = [] then [''Content-Type'']
            else [''Content-Type'', ''Authorization''])"
  unfolding api_world recording_fetch_snd by simp

subsection \<open>C5: the payload of \<^verbatim>\<open>create_chatflow\<close>\<close>

text \<open>
  C5. For every call to \<^verbatim>\<open>create_chatflow\<close> the handler issues one POST request to
  \<^verbatim>\<open>/chatflows\<close> whose payload has the given \<open>name\<close>, \<open>flowData\<close> as the JSON text of the
  given object, \<open>type\<close> as given or \<^verbatim>\<open>CHATFLOW\<close> when omitted, and \<open>chatbotConfig\<close> as
  the JSON text of the given object or \<^verbatim>\<open>undefined\<close> when omitted.
\<close>

theorem C5_create_payload:
  "\<exists>flowDataJson chatbotConfigValue.
     JSON_stringify (Obj (create_flowData params)) 0 = Some flowDataJson
     \<and> (case create_chatbotConfig params of
           None \<Rightarrow> chatbotConfigValue = Undefined
         | Some chatbotConfig \<Rightarrow>
             \<exists>str. JSON_stringify (Obj chatbotConfig) 0 = Some str \<and> chatbotConfigValue = Str str)
     \<and> snd (handleCreateChatflow (recording_api respond) params calls) =
         calls @ [(POST, ''/chatflows'',
                   Some (Obj [(''name'', Str (create_name params)),
                              (''flowData'', Str flowDataJson),
                              (''type'', Str (case create_type params of
                                                None \<Rightarrow> ''CHATFLOW''
                                              | Some t \<Rightarrow> chatflow_type_string t)),
                              (''chatbotConfig'', chatbotConfigValue)]))]"
proof -
  obtain fd where fd: "JSON_stringify (Obj (create_flowData params)) 0 = Some fd"
    using stringify_Obj by blast
  have ty: "js_or (opt_str (map_option chatflow_type_string (create_type params))) (Str ''CHATFLOW'')
            = Str (case create_type params of
                     None \<Rightarrow> ''CHATFLOW'' | Some t \<Rightarrow> chatflow_type_string t)"
  proof (cases "create_type params")
    case None
    then show ?thesis by (simp add: js_or_def opt_str_def)
  next
    case (Some t)
    then show ?thesis by (cases t) (simp_all add: js_or_def opt_str_def)
  qed
  show ?thesis
  proof (cases "create_chatbotConfig params")
    case None
    then show ?thesis
      unfolding handleCreateChatflow_def handler_snd recording_api_snd ty
      by (simp add: fd opt_str_def opt_obj_def)
  next
    case (Some cc)
    obtain str where str: "JSON_stringify (Obj cc) 0 = Some str"
      using stringify_Obj by blast
    with Some show ?thesis
      unfolding handleCreateChatflow_def handler_snd recording_api_snd ty
      by (simp add: fd opt_str_def opt_obj_def)
  qed
qed

subsection \<open>C6: failures become error responses\<close>

text \<open>
  C6 (as amended). For every tool and every \<^verbatim>\<open>Error\<close> thrown by its downstream call
  (the transport client's or the prediction client's), the handler returns a tool
  response with \<open>isError\<close> set to \<^verbatim>\<open>true\<close> whose single text item is the tool's fixed
  prefix followed by the message of the error. The same holds for every thrown value
  that is not an \<^verbatim>\<open>Error\<close> and that \<^verbatim>\<open>String\<close> converts, with its string form in
  the place of the message. (When the argument of a node tool cannot be encoded, the call
  is never made and the message is that of the \<^verbatim>\<open>URIError\<close>.)
\<close>

theorem C6_error_response:
  "fst (call_tool (\<lambda>params s. (Inl (Error message), w1 params s))
                  (\<lambda>method endpoint body s. (Inl (Error message), w2 method endpoint body s))
                  tc s)
     = Inr \<lparr>content = [\<lparr>item_type = ''text'',
                 item_text = Some (error_prefix tc
                    @ (if malformed_argument tc then ''URI malformed'' else message))\<rparr>],
            isError = Some True\<rparr>
   \<and> (ToString v = Inr str \<longrightarrow>
       fst (call_tool (\<lambda>params s. (Inl (Thrown v), w1 params s))
                      (\<lambda>method endpoint body s. (Inl (Thrown v), w2 method endpoint body s))
                      tc s)
         = Inr \<lparr>content = [\<lparr>item_type = ''text'',
                     item_text = Some (error_prefix tc
                        @ (if malformed_argument tc then ''URI malformed'' else str))\<rparr>],
                isError = Some True\<rparr>)"
  using call_tool_rejected [of "Error message" message w1 w2 tc s, OF error_message_Error]
    call_tool_rejected [of "Thrown v" str w1 w2 tc s]
  by (simp add: errorResponse_def error_message_Thrown)

theorem C6_witness:
  "ToString (Str ''boom'') = Inr ''boom''
   \<and> fst (call_tool (settled_sdk (Inl (Thrown (Str ''boom''))))
                    (settled_api (Inl (Thrown (Str ''boom'')))) list_chatflows ())
       = Inr \<lparr>content = [\<lparr>item_type = ''text'',
                   item_text = Some ''Error listing chatflows: boom''\<rparr>],
              isError = Some True\<rparr>
   \<and> fst (call_tool (settled_sdk (Inl (Error ''Connection failed'')))
                    (settled_api (Inl (Error ''Connection failed'')))
                    (create_prediction [(''chatflowId'', Str ''flow-123''), (''question'', Str ''Hi'')]) ())
       = Inr \<lparr>content = [\<lparr>item_type = ''text'',
                   item_text = Some ''Error running chatflow: Connection failed''\<rparr>],
              isError = Some True\<rparr>"
  using C6_error_response
      [of "''Connection failed''" "\<lambda>params s. s"  "\<lambda>method endpoint body s. s"
          "create_prediction [(''chatflowId'', Str ''flow-123''), (''question'', Str ''Hi'')]" "()"
          "Str ''boom''" "''boom''"]
    C6_error_response
      [of "''Connection failed''" "\<lambda>params s. s"  "\<lambda>method endpoint body s. s"
          list_chatflows "()" "Str ''boom''" "''boom''"]
  by (simp add: settled_sdk_def settled_api_def error_prefix_def malformed_argument_def)

text \<open>
  The claim as stated lets no thrown value leave a handler. The catch block applies
  \<^verbatim>\<open>String\<close> to a thrown value that is not an \<^verbatim>\<open>Error\<close>, and \<^verbatim>\<open>String\<close> throws a
  \<^verbatim>\<open>TypeError\<close> on an object with an own property \<open>toString\<close> that is not a function:
  when the prediction client throws the object \<^verbatim>\<open>{"toString": "x"}\<close>, the handler
  throws in its turn and returns no response.
\<close>

theorem C6_counterexample:
  "fst (handleCreatePrediction (settled_sdk (Inl (Thrown (Obj [(''toString'', Str ''x'')]))))
          [(''chatflowId'', Str ''flow-123''), (''question'', Str ''Hi'')] ())
   = Inl (Error ''Cannot convert object to primitive value'')"
  by code_simp

subsection \<open>C7: the response of \<^verbatim>\<open>delete_chatflow\<close>\<close>

text \<open>
  C7 (as amended). For every \<open>chatflowId\<close>, when the DELETE request succeeds with raw
  response \<open>r\<close>, the tool response is the success wrapping of the object with
  \<open>success\<close> true, \<open>deleted\<close> the id and \<open>result\<close> \<open>r\<close>. Its text contains
  \<^verbatim>\<open>"success": true\<close> and \<^verbatim>\<open>"deleted": \<close> followed by the JSON string literal of the
  id; when the id has no character that JSON escapes (no double quote, backslash or
  control character), that literal is the id between double quotes.
\<close>

theorem C7_delete_response:
  assumes "api DELETE (''/chatflows/'' @ chatflowId) None s = (Inr r, s')"
  shows "\<exists>response.
           fst (handleDeleteChatflow api chatflowId s) = Inr response
         \<and> response =
             successResponse
               (Obj [(''success'', Bool True), (''deleted'', Str chatflowId), (''result'', r)])
         \<and> isError response = None
         \<and> (\<exists>text. content response = [\<lparr>item_type = ''text'', item_text = Some text\<rparr>]
               \<and> sublist ''\"success\": true'' text
               \<and> sublist (''\"deleted\": '' @ QuoteJSONString chatflowId) text
               \<and> (list_all json_plain chatflowId \<longrightarrow>
                    sublist (''\"deleted\": \"'' @ chatflowId @ ''\"'') text))"
proof -
  have resp: "fst (handleDeleteChatflow api chatflowId s) =
           Inr (successResponse
             (Obj [(''success'', Bool True), (''deleted'', Str chatflowId), (''result'', r)]))"
    unfolding handleDeleteChatflow_def handler_fst assms by simp
  obtain t where t: "JSON_stringify
       (Obj [(''success'', Bool True), (''deleted'', Str chatflowId), (''result'', r)]) 2 = Some t"
    and s1: "sublist ''\"success\": true'' t"
    and s2: "sublist (''\"deleted\": '' @ QuoteJSONString chatflowId) t"
    using delete_text_contains by blast
  have s3: "sublist (''\"deleted\": \"'' @ chatflowId @ ''\"'') t"
    if "list_all json_plain chatflowId"
    using s2 by (simp add: quote_plain [OF that])
  show ?thesis
    unfolding resp using s1 s2 s3 by (simp add: successResponse_def t)
qed

theorem C7_witness:
  "recording_api (resolved_api (Obj [])) DELETE (''/chatflows/'' @ ''123'') None []
     = (Inr (Obj []), [(DELETE, ''/chatflows/123'', None)])
   \<and> list_all json_plain ''123''
   \<and> fst (handleDeleteChatflow (recording_api (resolved_api (Obj []))) ''123'' []) =
       Inr (successResponse
              (Obj [(''success'', Bool True), (''deleted'', Str ''123''), (''result'', Obj [])]))
   \<and> (\<exists>text. content (successResponse
                (Obj [(''success'', Bool True), (''deleted'', Str ''123''), (''result'', Obj [])])) =
                [\<lparr>item_type = ''text'', item_text = Some text\<rparr>]
          \<and> sublist ''\"deleted\": \"123\"'' text)"
proof -
  have call:
    "recording_api (resolved_api (Obj [])) DELETE (''/chatflows/'' @ ''123'') None []
     = (Inr (Obj []), [(DELETE, ''/chatflows/123'', None)])"
    by (simp add: recording_api_def resolved_api_def)
  have plain: "list_all json_plain ''123''"
    by (simp add: json_plain_def QuoteJSONChar_def)
  show ?thesis
    using C7_delete_response
        [of "recording_api (resolved_api (Obj []))" "''123''" "[]" "Obj []"
            "[(DELETE, ''/chatflows/123'', None)]", OF call]
      call plain
    by auto
qed

text \<open>
  The claim as stated puts the id itself between the quotes, for every id. For the id
  \<^verbatim>\<open>a"b\<close> the text holds the escaped literal, and the unescaped one occurs nowhere in it.
\<close>

theorem C7_counterexample:
  "fst (handleDeleteChatflow (recording_api (resolved_api (Obj [])))
          [CHR ''a'', CHR 0x22, CHR ''b''] [])
     = Inr \<lparr>content = [\<lparr>item_type = ''text'',
              item_text = Some (''{'' @ [CHR 0x0A] @ ''  \"success\": true,'' @ [CHR 0x0A]
                 @ ''  \"deleted\": \"a'' @ [CHR 0x5C] @ ''\"b\",'' @ [CHR 0x0A]
                 @ ''  \"result\": {}'' @ [CHR 0x0A] @ ''}'')\<rparr>],
            isError = None\<rparr>
   \<and> \<not> sublist (''\"deleted\": \"'' @ [CHR ''a'', CHR 0x22, CHR ''b''] @ ''\"'')
         (''{'' @ [CHR 0x0A] @ ''  \"success\": true,'' @ [CHR 0x0A]
             @ ''  \"deleted\": \"a'' @ [CHR 0x5C] @ ''\"b\",'' @ [CHR 0x0A]
             @ ''  \"result\": {}'' @ [CHR 0x0A] @ ''}'')"
  by code_simp

subsection \<open>C8: the node endpoints are percent-encoded\<close>

text \<open>
  C8 (as amended). For every \<open>category\<close> without an unpaired surrogate,
  \<^verbatim>\<open>get_nodes_by_category\<close> requests \<^verbatim>\<open>/nodes/category/\<close> followed by the
  percent-encoding of the category, and for every such \<open>nodeName\<close>, \<^verbatim>\<open>get_node\<close>
  requests \<^verbatim>\<open>/nodes/\<close> followed by the percent-encoding of the name. The category
  \<^verbatim>\<open>Tools & Utilities\<close> gives \<^verbatim>\<open>/nodes/category/Tools%20%26%20Utilities\<close> and the name
  \<^verbatim>\<open>custom/node\<close> gives \<^verbatim>\<open>/nodes/custom%2Fnode\<close>. For a string with an unpaired
  surrogate \<^verbatim>\<open>encodeURIComponent\<close> throws: the handler makes no request and returns the
  error response of the tool with the message \<^verbatim>\<open>URI malformed\<close>.
\<close>

theorem C8_node_endpoints:
  "(if unpaired_surrogate category
    then handleGetNodesByCategory (recording_api respond) category calls =
           (Inr \<lparr>content = [\<lparr>item_type = ''text'',
                    item_text = Some ''Error getting nodes by category: URI malformed''\<rparr>],
                 isError = Some True\<rparr>, calls)
    else \<exists>encoded. encodeURIComponent category = Inr encoded
           \<and> snd (handleGetNodesByCategory (recording_api respond) category calls) =
               calls @ [(GET, ''/nodes/category/'' @ encoded, None)])
   \<and> (if unpaired_surrogate nodeName
      then handleGetNode (recording_api respond) nodeName calls =
             (Inr \<lparr>content = [\<lparr>item_type = ''text'',
                      item_text = Some ''Error getting node: URI malformed''\<rparr>],
                   isError = Some True\<rparr>, calls)
      else \<exists>encoded. encodeURIComponent nodeName = Inr encoded
             \<and> snd (handleGetNode (recording_api respond) nodeName calls) =
                 calls @ [(GET, ''/nodes/'' @ encoded, None)])
   \<and> snd (handleGetNodesByCategory (recording_api respond) (ascii ''Tools & Utilities'') calls) =
       calls @ [(GET, ''/nodes/category/Tools%20%26%20Utilities'', None)]
   \<and> snd (handleGetNode (recording_api respond) (ascii ''custom/node'') calls) =
       calls @ [(GET, ''/nodes/custom%2Fnode'', None)]"
proof -
  have category: "snd (handleGetNodesByCategory (recording_api respond) u calls) =
      calls @ [(GET, ''/nodes/category/'' @ encoded, None)]"
    if "encodeURIComponent u = Inr encoded" for u encoded
    unfolding nodes_by_category_encoded [OF that] handler_snd recording_api_snd by simp
  have node: "snd (handleGetNode (recording_api respond) u calls) =
      calls @ [(GET, ''/nodes/'' @ encoded, None)]"
    if "encodeURIComponent u = Inr encoded" for u encoded
    unfolding node_encoded [OF that] handler_snd recording_api_snd by simp
  have a: "encodeURIComponent (ascii ''Tools & Utilities'') = Inr ''Tools%20%26%20Utilities''"
    by code_simp
  have b: "encodeURIComponent (ascii ''custom/node'') = Inr ''custom%2Fnode''"
    by code_simp
  have c: ?thesis if "unpaired_surrogate category" "unpaired_surrogate nodeName"
    using that category [OF a] node [OF b]
    by (simp add: nodes_by_category_malformed node_malformed errorResponse_def)
  have d: ?thesis if "unpaired_surrogate category" "\<not> unpaired_surrogate nodeName"
    using that category [OF a] node [OF b] node encodeURIComponent_returns [of nodeName]
    by (auto simp: nodes_by_category_malformed errorResponse_def)
  have e: ?thesis if "\<not> unpaired_surrogate category" "unpaired_surrogate nodeName"
    using that category [OF a] node [OF b] category encodeURIComponent_returns [of category]
    by (auto simp: node_malformed errorResponse_def)
  have f: ?thesis if "\<not> unpaired_surrogate category" "\<not> unpaired_surrogate nodeName"
    using that category [OF a] node [OF b] category node
      encodeURIComponent_returns [of category] encodeURIComponent_returns [of nodeName]
    by auto
  from c d e f show ?thesis by blast
qed

text \<open>
  The claim as stated speaks of every string. The category made of the letter a, the
  lone leading surrogate U+D800 and the letter b is a string that the tool's schema
  accepts; the handler makes no request for it.
\<close>

theorem C8_counterexample:
  "handleGetNodesByCategory (recording_api (resolved_api (Arr []))) [0x61, 0xD800, 0x62] []
   = (Inr \<lparr>content = [\<lparr>item_type = ''text'',
              item_text = Some ''Error getting nodes by category: URI malformed''\<rparr>],
           isError = Some True\<rparr>, [])"
  by code_simp

subsection \<open>C9: the chatflow id goes into the path as it is\<close>

text \<open>
  C9. \<^verbatim>\<open>get_chatflow\<close>, \<^verbatim>\<open>update_chatflow\<close> and \<^verbatim>\<open>delete_chatflow\<close> request
  \<^verbatim>\<open>/chatflows/\<close> followed by the id unchanged. So for every id with a character that
  percent-encoding would replace, such as \<^verbatim>\<open>/\<close>, the requested path differs from
  \<^verbatim>\<open>/chatflows/\<close> followed by the encoded id.
\<close>

theorem C9_chatflow_id_raw:
  "snd (handleGetChatflow (recording_api respond) chatflowId calls) =
     calls @ [(GET, ''/chatflows/'' @ chatflowId, None)]
   \<and> (\<exists>payload.
        snd (handleUpdateChatflow (recording_api respond)
               (params\<lparr>update_chatflowId := chatflowId\<rparr>) calls) =
          calls @ [(PUT, ''/chatflows/'' @ chatflowId, payload)])
   \<and> snd (handleDeleteChatflow (recording_api respond) chatflowId calls) =
     calls @ [(DELETE, ''/chatflows/'' @ chatflowId, None)]
   \<and> (\<not> list_all isUnreserved chatflowId \<longrightarrow>
        ''/chatflows/'' @ chatflowId \<noteq> ''/chatflows/'' @ percentEncode chatflowId)"
  using update_recorded [of respond "params\<lparr>update_chatflowId := chatflowId\<rparr>" calls]
    percentEncode_changes [of chatflowId]
  unfolding get_recorded delete_recorded by auto

theorem C9_witness:
  "\<not> list_all isUnreserved ''a/b''
   \<and> snd (handleGetChatflow (recording_api (resolved_api Null)) ''a/b'' []) =
       [(GET, ''/chatflows/a/b'', None)]
   \<and> snd (handleDeleteChatflow (recording_api (resolved_api Null)) ''a/b'' []) =
       [(DELETE, ''/chatflows/a/b'', None)]
   \<and> ''/chatflows/a/b'' \<noteq> ''/chatflows/'' @ percentEncode ''a/b''
   \<and> encodeURIComponent (ascii ''a/b'') = Inr (percentEncode ''a/b'')"
proof -
  have reserved: "\<not> list_all isUnreserved ''a/b''"
    by (simp add: isUnreserved_def)
  have builtin: "encodeURIComponent (ascii ''a/b'') = Inr (percentEncode ''a/b'')"
    by (rule encodeURIComponent_ascii) simp
  show ?thesis
    using reserved builtin
      C9_chatflow_id_raw [of "resolved_api Null" "''a/b''" "[]"]
    by simp
qed

subsection \<open>C10: the shape of every tool response\<close>

text \<open>
  C10. Whatever the two clients do, every response that one of the twelve tools returns
  has a content list of exactly one item, of type \<^verbatim>\<open>text\<close>, and its \<open>isError\<close> field
  is either absent or \<^verbatim>\<open>true\<close>. When the downstream call resolves, the tool returns a
  response whose text is the JSON of the result with an indentation of two blanks and
  whose \<open>isError\<close> field is absent (for a node tool whose argument cannot be encoded,
  the call is not made and the response is the error response).
\<close>

theorem C10_response_shape:
  "(\<forall>response. fst (call_tool client api tc s) = Inr response \<longrightarrow>
      (\<exists>t. content response = [\<lparr>item_type = ''text'', item_text = t\<rparr>])
      \<and> (isError response = None \<or> isError response = Some True))
   \<and> fst (call_tool (\<lambda>params s. (Inr v, w1 params s))
                    (\<lambda>method endpoint body s. (Inr v, w2 method endpoint body s)) tc s)
      = Inr (if malformed_argument tc
             then \<lparr>content = [\<lparr>item_type = ''text'',
                       item_text = Some (error_prefix tc @ ''URI malformed'')\<rparr>],
                    isError = Some True\<rparr>
             else \<lparr>content = [\<lparr>item_type = ''text'',
                       item_text = JSON_stringify (tool_result tc v) 2\<rparr>],
                    isError = None\<rparr>)"
  using call_tool_shape [of client api tc s]
  unfolding call_tool_resolved successResponse_def errorResponse_def by simp

theorem C10_witness:
  "fst (call_tool (settled_sdk (Inr (Obj []))) (settled_api (Inr (Obj [])))
          (delete_chatflow ''123'') ())
     = Inr \<lparr>content = [\<lparr>item_type = ''text'',
              item_text = JSON_stringify
                 (Obj [(''success'', Bool True), (''deleted'', Str ''123''), (''result'', Obj [])]) 2\<rparr>],
            isError = None\<rparr>
   \<and> (\<exists>t. content \<lparr>content = [\<lparr>item_type = ''text'',
              item_text = JSON_stringify
                 (Obj [(''success'', Bool True), (''deleted'', Str ''123''), (''result'', Obj [])]) 2\<rparr>],
            isError = None\<rparr> = [\<lparr>item_type = ''text'', item_text = t\<rparr>])"
  using C10_response_shape
      [of "settled_sdk (Inr (Obj []))" "settled_api (Inr (Obj []))" "delete_chatflow ''123''" "()"
          "Obj []" "\<lambda>params s. s" "\<lambda>method endpoint body s. s"]
  by (simp add: settled_sdk_def settled_api_def malformed_argument_def tool_result_def)

end
